theory Spec2Isabelle
  imports Complex_Main
begin

section \<open>Strings and numbers of the host language\<close>

text \<open>
  The program is TypeScript. Its strings are sequences of UTF-16 code units; here a string is a
  \<^typ>\<open>string\<close> whose characters are the code units below 256 (Basic Latin and Latin-1
  Supplement), so \<open>length\<close> is the source's \<open>.length\<close> on such strings. Its numbers are
  IEEE doubles; scores and prices are modelled as exact \<^typ>\<open>real\<close>s and counts as
  \<^typ>\<open>nat\<close>/\<^typ>\<open>int\<close> (no rounding error, no NaN: where the source can meet NaN, at
  \<open>parseInt\<close>, the model returns an option).
\<close>

text \<open>\<open>String.prototype.toLowerCase\<close>: on Latin-1 the upper-case letters are A-Z and
  U+00C0-U+00DE without the multiplication sign U+00D7; each maps to the code unit 32 above.\<close>

definition toLowerChar :: "char \<Rightarrow> char" where
  "toLowerChar c =
     (let n = (of_char c :: nat)
      in if (65 \<le> n \<and> n \<le> 90) \<or> (192 \<le> n \<and> n \<le> 222 \<and> n \<noteq> 215)
         then char_of (n + 32) else c)"

definition toLowerCase :: "string \<Rightarrow> string" where
  "toLowerCase s = map toLowerChar s"

text \<open>\<open>String.prototype.toUpperCase\<close>: a-z and U+00E0-U+00FE without the division sign
  U+00F7 map to the code unit 32 below; the sharp s U+00DF maps to the two code units \<open>SS\<close>.
  The micro sign U+00B5 and y with diaeresis U+00FF have upper-case forms outside Latin-1
  (U+039C, U+0178), which this string type cannot hold: they are left unchanged here, and
  the statements that depend on \<open>toUpperCase\<close> exclude strings that begin with one of them.\<close>

definition toUpperChar :: "char \<Rightarrow> string" where
  "toUpperChar c =
     (let n = (of_char c :: nat)
      in if (97 \<le> n \<and> n \<le> 122) \<or> (224 \<le> n \<and> n \<le> 254 \<and> n \<noteq> 247)
         then [char_of (n - 32)]
         else if n = 223 then ''SS'' else [c])"

definition toUpperCase :: "string \<Rightarrow> string" where
  "toUpperCase s = concat (map toUpperChar s)"

text \<open>White space of \<open>trim\<close> and of the regular-expression class \<open>\s\<close>, below 256:
  TAB, LF, VT, FF, CR, SPACE and the no-break space U+00A0.\<close>

definition isWhiteSpace :: "char \<Rightarrow> bool" where
  "isWhiteSpace c = ((of_char c :: nat) \<in> {9, 10, 11, 12, 13, 32, 160})"

definition trim :: "string \<Rightarrow> string" where
  "trim s = rev (dropWhile isWhiteSpace (rev (dropWhile isWhiteSpace s)))"

text \<open>\<open>s.startsWith(p)\<close> and \<open>s.includes(p)\<close> (here \<open>includesStr\<close>): \<open>p\<close> occurs in \<open>s\<close> as a contiguous run.\<close>

fun startsWith :: "string \<Rightarrow> string \<Rightarrow> bool" where
  "startsWith s [] = True"
| "startsWith [] (p # ps) = False"
| "startsWith (c # cs) (p # ps) = (c = p \<and> startsWith cs ps)"

fun includesStr :: "string \<Rightarrow> string \<Rightarrow> bool" where
  "includesStr [] p = (p = [])"
| "includesStr (c # cs) p = (startsWith (c # cs) p \<or> includesStr cs p)"

section \<open>Similarity primitives (services/smart-matcher.ts)\<close>

subsection \<open>levenshteinDistance\<close>

text \<open>
  The source fills a matrix with \<open>str2.length + 1\<close> rows and \<open>str1.length + 1\<close> columns, row by
  row. \<open>levRow c str1 prev left\<close> is the inner loop over \<open>j\<close> for the row of the character
  \<open>c = str2.charAt(i - 1)\<close>: \<open>prev\<close> is the part of row \<open>i - 1\<close> from column \<open>j - 1\<close> on, and
  \<open>left\<close> is \<open>matrix[i][j - 1]\<close>.
\<close>

fun levRow :: "char \<Rightarrow> string \<Rightarrow> nat list \<Rightarrow> nat \<Rightarrow> nat list" where
  "levRow c (x # xs) (diag # up # prev) left =
     (let v = (if c = x then diag
               else min (diag + 1) (min (left + 1) (up + 1)))
      in v # levRow c xs (up # prev) v)"
| "levRow c xs prev left = []"

text \<open>The outer loop over \<open>i\<close>: row \<open>i\<close> starts with \<open>matrix[i] = [i]\<close>.\<close>

fun levRows :: "string \<Rightarrow> string \<Rightarrow> nat list \<Rightarrow> nat \<Rightarrow> nat list list" where
  "levRows str1 [] prev i = []"
| "levRows str1 (c # cs) prev i =
     (let row = i # levRow c str1 prev i in row # levRows str1 cs row (i + 1))"

definition levenshteinMatrix :: "string \<Rightarrow> string \<Rightarrow> nat list list" where
  "levenshteinMatrix str1 str2 =
     (let row0 = [0 ..< length str1 + 1] in row0 # levRows str1 str2 row0 1)"

definition levenshteinDistance :: "string \<Rightarrow> string \<Rightarrow> nat" where
  "levenshteinDistance str1 str2 = levenshteinMatrix str1 str2 ! length str2 ! length str1"

subsection \<open>stringSimilarity\<close>

definition stringSimilarity :: "string \<Rightarrow> string \<Rightarrow> real" where
  "stringSimilarity str1 str2 =
     (if str1 = str2 then 1
      else if length str1 = 0 \<or> length str2 = 0 then 0
      else
        let longer = (if length str1 > length str2 then str1 else str2);
            shorter = (if length str1 > length str2 then str2 else str1)
        in if length longer = 0 then 1
           else
             let editDistance = levenshteinDistance str1 str2
             in (real (length longer) - real editDistance) / real (length longer))"

text \<open>\<open>absDiff i j\<close> is \<open>|i - j|\<close> on naturals: the entry \<open>matrix[i][j]\<close> when both strings
  are the same.\<close>

definition absDiff :: "nat \<Rightarrow> nat \<Rightarrow> nat" where
  "absDiff i j = (if i \<le> j then j - i else i - j)"

section \<open>Brand canonicalisation (utils/brand-normalization.ts)\<close>

text \<open>\<open>BRAND_ALIASES\<close>: the canonical names with their aliases, in the order of the object
  literal, which is the order \<open>Object.entries\<close> walks them in.\<close>

definition BRAND_ALIASES :: "(string \<times> string list) list" where
  "BRAND_ALIASES =
    [(''Apple'', [''iphone'', ''ipad'', ''macbook'', ''airpods'', ''apple'']),
     (''Samsung'', [''samsung'', ''galaxy'']),
     (''Xiaomi'', [''xiaomi'', ''mi'', ''redmi'', ''poco'']),
     (''OnePlus'', [''oneplus'', ''one plus'']),
     (''Realme'', [''realme'', ''real me'']),
     (''Oppo'', [''oppo'']),
     (''Vivo'', [''vivo'']),
     (''Google'', [''google'', ''pixel'']),
     (''HP'', [''hp'', ''hewlett-packard'', ''hewlett packard'']),
     (''Dell'', [''dell'']),
     (''Lenovo'', [''lenovo'']),
     (''Asus'', [''asus'']),
     (''Acer'', [''acer'']),
     (''MSI'', [''msi'']),
     (''Sony'', [''sony'']),
     (''LG'', [''lg'']),
     (''Philips'', [''philips'']),
     (''Panasonic'', [''panasonic'']),
     (''Whirlpool'', [''whirlpool'']),
     (''Bosch'', [''bosch'']),
     (''IFB'', [''ifb'']),
     (''Canon'', [''canon'']),
     (''Nikon'', [''nikon'']),
     (''Nike'', [''nike'']),
     (''Adidas'', [''adidas'']),
     (''Puma'', [''puma'']),
     (''Reebok'', [''reebok'']),
     (''Levis'', [''levi'', ''levis'', ''levi'' @ [CHR 0x27] @ ''s'']),
     (''Zara'', [''zara'']),
     (''H&M'', [''h&m'', ''hm'', ''h and m'']),
     (''Mango'', [''mango'']),
     (''UCB'', [''ucb'', ''united colors of benetton'', ''benetton'']),
     (''Allen Solly'', [''allen solly'', ''allensolly'']),
     (''Van Heusen'', [''van heusen'', ''vanheusen'']),
     (''Lakme'', [''lakme'', ''lakm'' @ [CHR 0xE9]]),
     (''Maybelline'', [''maybelline'']),
     (''L'' @ [CHR 0x27] @ ''Oreal'', [''loreal'', ''l'' @ [CHR 0x27] @ ''oreal'', ''l oreal'']),
     (''MAC'', [''mac'']),
     (''Revlon'', [''revlon'']),
     (''Nykaa'', [''nykaa'']),
     (''Mamaearth'', [''mamaearth'', ''mama earth'']),
     (''Boat'', [''boat'', ''boAt'']),
     (''JBL'', [''jbl'']),
     (''Bose'', [''bose'']),
     (''Sennheiser'', [''sennheiser'']),
     (''Fastrack'', [''fastrack'', ''fast track'']),
     (''Titan'', [''titan'']),
     (''Casio'', [''casio'']),
     (''Fossil'', [''fossil'']),
     (''Timex'', [''timex''])]"

text \<open>
  \<open>normalizeBrand\<close>: the empty string is returned as it is; the first loop returns the first
  canonical name whose lower-case form is the trimmed lower-case input, the second loop the
  first canonical name with such an alias; otherwise
  \<open>brand.charAt(0).toUpperCase() + brand.slice(1).toLowerCase()\<close> (of the input, not of its
  trimmed form).
\<close>

definition normalizeBrand :: "string \<Rightarrow> string" where
  "normalizeBrand brand =
     (if brand = [] then []
      else
        let normalized = trim (toLowerCase brand)
        in case find (\<lambda>(canonical, aliases). toLowerCase canonical = normalized) BRAND_ALIASES of
             Some (canonical, aliases) \<Rightarrow> canonical
           | None \<Rightarrow>
              (case find (\<lambda>(canonical, aliases).
                            list_ex (\<lambda>alias. toLowerCase alias = normalized) aliases)
                         BRAND_ALIASES of
                 Some (canonical, aliases) \<Rightarrow> canonical
               | None \<Rightarrow> toUpperCase (take 1 brand) @ toLowerCase (drop 1 brand)))"

definition brandsMatch :: "string \<Rightarrow> string \<Rightarrow> bool" where
  "brandsMatch brand1 brand2 =
     (if brand1 = [] \<or> brand2 = [] then False
      else
        let norm1 = normalizeBrand brand1;
            norm2 = normalizeBrand brand2
        in toLowerCase norm1 = toLowerCase norm2)"


section \<open>Data model (types/index.ts)\<close>

text \<open>
  \<open>ProductFeatures\<close> is the object \<open>SmartMatcher.extractFeatures\<close> returns. \<open>Product\<close> has the
  nine mandatory fields of the interface; its optional fields (\<open>attributes\<close>, \<open>productNumber\<close>,
  \<open>sku\<close>, \<open>availability\<close>) are read by neither matcher nor by the deduplicator and are left
  out, as are the display strings \<open>matchBadge\<close> and \<open>matchReason\<close> of \<open>MatchResult\<close>, which hold
  symbols outside Latin-1. The TypeScript fields are strings; \<open>if (x)\<close> and \<open>x || ''\<close> on a string
  test for the empty string. The field \<open>keywords\<close> of the features is \<open>keywordsOf\<close> here.
  \<open>ProductAttributes\<close> is the \<open>Required<ProductAttributes>\<close> that
  \<open>ProductMatcher.extractAttributes\<close> returns (the field \<open>size\<close> is \<open>sizeAttr\<close> here).
\<close>

datatype MatchLevel = EXACT_ID | EXACT | HIGH | MEDIUM | LOW | SIMILAR

record ProductAttributes =
  model :: string
  storage :: string
  ram :: string
  color :: string
  sizeAttr :: string
  variant :: string
  brand :: string

record ProductFeatures =
  brand :: string
  model :: string
  storage :: string
  ram :: string
  color :: string
  tokens :: "string list"
  bigrams :: "string list"
  trigrams :: "string list"
  numbers :: "int list"
  keywordsOf :: "string list"
  titleLower :: string

record ScoringBreakdown =
  brandScore :: real
  modelScore :: real
  specsScore :: real
  titleScore :: real
  categoryScore :: real
  priceScore :: real
  total :: real

record Product =
  site :: string
  title :: string
  price :: string
  numericPrice :: real
  url :: string
  image :: string
  productId :: string
  brand :: string
  category :: string

record MatchResult = Product +
  confidence :: int
  matchLevel :: MatchLevel
  similarity :: "real option"
  scoring :: "ScoringBreakdown option"

text \<open>\<open>{...candidate, confidence, matchLevel, ...}\<close>: the candidate's fields with the match
  fields added.\<close>

definition mkMatch ::
  "Product \<Rightarrow> int \<Rightarrow> MatchLevel \<Rightarrow> real option \<Rightarrow> ScoringBreakdown option \<Rightarrow> MatchResult" where
  "mkMatch c conf lvl sim sc =
     Product.extend c
       (MatchResult.fields conf lvl sim sc)"

text \<open>The title extractors of utils/product.ts (\<open>extractModel\<close>, \<open>extractStorage\<close>, \<open>extractRAM\<close>,
  \<open>extractColor\<close>) and \<open>SmartMatcher.extractKeywords\<close> are tables of regular expressions over the
  title. The matchers below take them as a parameter: every statement about a matcher holds for
  all total extractors, those of the source among them.\<close>

record TitleExtractors =
  extractModel :: "string \<Rightarrow> string"
  extractStorage :: "string \<Rightarrow> string"
  extractRAM :: "string \<Rightarrow> string"
  extractColor :: "string \<Rightarrow> string"
  extractKeywords :: "string \<Rightarrow> string list"

text \<open>\<open>Math.round\<close> rounds to the nearest integer, halves upwards.\<close>

definition mathRound :: "real \<Rightarrow> int" where
  "mathRound x = \<lfloor>x + 1 / 2\<rfloor>"

text \<open>\<open>xs.sort((a, b) => b.confidence - a.confidence)\<close>: a stable sort by falling confidence.\<close>

definition sortByConfidence :: "MatchResult list \<Rightarrow> MatchResult list" where
  "sortByConfidence ms = sort_key (\<lambda>m. - confidence m) ms"

section \<open>Regular-expression classes and number parsing\<close>

text \<open>\<open>\d\<close> and \<open>\w\<close> of the regular expressions (ASCII digits; ASCII letters, digits and
  the underscore).\<close>

definition isDigitChar :: "char \<Rightarrow> bool" where
  "isDigitChar c = (let n = (of_char c :: nat) in 48 \<le> n \<and> n \<le> 57)"

definition isWordChar :: "char \<Rightarrow> bool" where
  "isWordChar c =
     (let n = (of_char c :: nat)
      in (48 \<le> n \<and> n \<le> 57) \<or> (65 \<le> n \<and> n \<le> 90) \<or> n = 95 \<or> (97 \<le> n \<and> n \<le> 122))"

text \<open>\<open>s.split(/\s+/)\<close>: the pieces between the maximal runs of white space; a run at either
  end leaves an empty piece there, and the empty string splits into one empty piece.\<close>

fun splitOnWhiteSpace :: "string \<Rightarrow> string list" where
  "splitOnWhiteSpace [] = [[]]"
| "splitOnWhiteSpace (c # cs) =
     (if isWhiteSpace c
      then (case cs of
              d # ds \<Rightarrow> if isWhiteSpace d then splitOnWhiteSpace cs else [] # splitOnWhiteSpace cs
            | [] \<Rightarrow> [] # splitOnWhiteSpace cs)
      else (case splitOnWhiteSpace cs of
              t # ts \<Rightarrow> (c # t) # ts
            | [] \<Rightarrow> [[c]]))"

text \<open>\<open>xs.join(sep)\<close>.\<close>

fun joinStr :: "string \<Rightarrow> string list \<Rightarrow> string" where
  "joinStr sep [] = []"
| "joinStr sep [x] = x"
| "joinStr sep (x # y # ys) = x @ sep @ joinStr sep (y # ys)"

text \<open>\<open>s.match(/\d+/g)\<close>: the maximal runs of digits, in order (the empty list stands for the
  \<open>null\<close> of no match; every use in the source treats the two alike).\<close>

fun digitRunsFrom :: "string \<Rightarrow> string \<Rightarrow> string list" where
  "digitRunsFrom cur [] = (if cur = [] then [] else [cur])"
| "digitRunsFrom cur (c # cs) =
     (if isDigitChar c then digitRunsFrom (cur @ [c]) cs
      else (if cur = [] then [] else [cur]) @ digitRunsFrom [] cs)"

definition digitRuns :: "string \<Rightarrow> string list" where
  "digitRuns s = digitRunsFrom [] s"

text \<open>
  \<open>parseInt(s)\<close> without a radix: leading white space is skipped, a sign is read, a prefix
  \<open>0x\<close>/\<open>0X\<close> selects base 16, and the longest run of digits of the base is read; with no
  digit the result is NaN, here \<open>None\<close>.
\<close>

definition digitValue :: "char \<Rightarrow> nat" where
  "digitValue c =
     (let n = (of_char c :: nat)
      in if 48 \<le> n \<and> n \<le> 57 then n - 48
         else if 97 \<le> n \<and> n \<le> 122 then n - 87
         else if 65 \<le> n \<and> n \<le> 90 then n - 55
         else 36)"

definition digitsValue :: "nat \<Rightarrow> string \<Rightarrow> int" where
  "digitsValue radix ds = foldl (\<lambda>acc c. acc * int radix + int (digitValue c)) 0 ds"

definition parseInt :: "string \<Rightarrow> int option" where
  "parseInt s =
     (let s1 = dropWhile isWhiteSpace s;
          sgn = (if startsWith s1 ''-'' then - 1 else 1 :: int);
          s2 = (if startsWith s1 ''-'' \<or> startsWith s1 ''+'' then drop 1 s1 else s1);
          radix = (if startsWith s2 ''0x'' \<or> startsWith s2 ''0X'' then 16 else 10 :: nat);
          s3 = (if radix = 16 then drop 2 s2 else s2);
          ds = takeWhile (\<lambda>c. digitValue c < radix) s3
      in if ds = [] then None else Some (sgn * digitsValue radix ds))"

section \<open>The primary matcher (services/smart-matcher.ts)\<close>

definition SmartMatcher_MIN_CONFIDENCE :: real where
  "SmartMatcher_MIN_CONFIDENCE = 70"

definition MAX_RESULTS :: nat where
  "MAX_RESULTS = 8"

definition WEIGHTS_BRAND :: real where "WEIGHTS_BRAND = 25"
definition WEIGHTS_MODEL :: real where "WEIGHTS_MODEL = 30"
definition WEIGHTS_SPECS :: real where "WEIGHTS_SPECS = 20"
definition WEIGHTS_TITLE :: real where "WEIGHTS_TITLE = 15"
definition WEIGHTS_CATEGORY :: real where "WEIGHTS_CATEGORY = 10"

definition CATEGORY_KEYWORDS :: "(string \<times> string list) list" where
  "CATEGORY_KEYWORDS =
    [(''laptop'', [''laptop'', ''notebook'', ''ultrabook'', ''chromebook'', ''macbook'']),
     (''phone'', [''phone'', ''smartphone'', ''mobile'', ''iphone'', ''galaxy phone'']),
     (''tablet'', [''tablet'', ''ipad'', ''tab s'', ''surface go'']),
     (''gpu'', [''graphics card'', ''gpu'', ''geforce'', ''radeon'', ''rtx'', ''gtx'']),
     (''accessory'', [''case'', ''cover'', ''charger'', ''cable'', ''adapter'', ''protector'',
                      ''tempered glass''])]"

definition preprocessCandidates :: "Product list \<Rightarrow> Product list" where
  "preprocessCandidates candidates =
     filter (\<lambda>p. if title p = [] \<or> length (title p) < 5 then False
                 else if numericPrice p < 10 then False
                 else True) candidates"

text \<open>\<open>detectCategory\<close> reads only \<open>title\<close> and \<open>category\<close>, so it applies to a product and to
  a match result alike. The two nested iterations return the first category, in the order of
  \<open>CATEGORY_KEYWORDS\<close>, one of whose keywords occurs in the lower-case title.\<close>

definition detectCategory :: "'a Product_scheme \<Rightarrow> string" where
  "detectCategory product =
     (let titleLower = toLowerCase (title product)
      in if category product \<noteq> [] \<and> includesStr (category product) ''laptop'' then ''laptop''
         else if category product \<noteq> [] \<and> includesStr (category product) ''phone'' then ''phone''
         else if category product \<noteq> [] \<and> includesStr (category product) ''tablet'' then ''tablet''
         else if category product \<noteq> [] \<and> includesStr (category product) ''gpu'' then ''gpu''
         else
           (case find (\<lambda>(cat, kws). list_ex (\<lambda>keyword. includesStr titleLower keyword) kws)
                      CATEGORY_KEYWORDS of
              Some (cat, kws) \<Rightarrow> cat
            | None \<Rightarrow> ''unknown''))"

definition filterByCategory :: "Product \<Rightarrow> string \<Rightarrow> Product list \<Rightarrow> Product list" where
  "filterByCategory source sourceCategory candidates =
     (if sourceCategory = ''accessory''
      then filter (\<lambda>c. detectCategory c = ''accessory'') candidates
      else filter (\<lambda>c.
             let candidateCategory = detectCategory c
             in if candidateCategory = ''accessory'' then False
                else if sourceCategory = ''unknown'' then True
                else if candidateCategory = ''unknown'' then True
                else sourceCategory = candidateCategory) candidates)"

definition SmartMatcher_stopWords :: "string list" where
  "SmartMatcher_stopWords =
     [''the'', ''a'', ''an'', ''and'', ''or'', ''but'', ''in'', ''on'', ''at'', ''to'', ''for'',
      ''of'', ''with'', ''by'']"

text \<open>\<open>text.toLowerCase().replace(/[^\w\s]/g, ' ').split(/\s+/).filter(...)\<close>.\<close>

definition SmartMatcher_tokenize :: "string \<Rightarrow> string list" where
  "SmartMatcher_tokenize text =
     filter (\<lambda>t. length t > 1 \<and> t \<notin> set SmartMatcher_stopWords)
       (splitOnWhiteSpace
          (map (\<lambda>c. if isWordChar c \<or> isWhiteSpace c then c else CHR '' '') (toLowerCase text)))"

text \<open>The loop runs for \<open>i = 0, ..., tokens.length - n\<close>, and not at all when \<open>n\<close> exceeds the
  length.\<close>

definition generateNGrams :: "string list \<Rightarrow> nat \<Rightarrow> string list" where
  "generateNGrams toks n =
     map (\<lambda>i. joinStr '' '' (take n (drop i toks))) [0 ..< (length toks + 1) - n]"

definition extractFeatures :: "TitleExtractors \<Rightarrow> Product \<Rightarrow> ProductFeatures" where
  "extractFeatures X product =
     (let tLower = toLowerCase (title product);
          toks = SmartMatcher_tokenize (title product)
      in \<lparr> ProductFeatures.brand = normalizeBrand (Product.brand product),
           ProductFeatures.model = extractModel X (title product),
           ProductFeatures.storage = extractStorage X (title product),
           ProductFeatures.ram = extractRAM X (title product),
           ProductFeatures.color = extractColor X (title product),
           tokens = toks,
           bigrams = generateNGrams toks 2,
           trigrams = generateNGrams toks 3,
           numbers = map (digitsValue 10) (digitRuns tLower),
           keywordsOf = extractKeywords X tLower,
           titleLower = tLower \<rparr>)"

subsection \<open>The six sub-scores\<close>

definition scoreBrand :: "string \<Rightarrow> string \<Rightarrow> real" where
  "scoreBrand brand1 brand2 =
     (if brand1 = [] \<or> brand2 = [] then 0
      else if brandsMatch brand1 brand2 then WEIGHTS_BRAND
      else if includesStr brand1 brand2 \<or> includesStr brand2 brand1 then WEIGHTS_BRAND * (7 / 10)
      else
        let words1 = splitOnWhiteSpace brand1;
            words2 = splitOnWhiteSpace brand2;
            commonWords = filter (\<lambda>w. w \<in> set words2 \<and> length w > 2) words1
        in if length commonWords > 0 then WEIGHTS_BRAND * (5 / 10) else 0)"

text \<open>Jaccard similarity of the two token sets (\<open>new Set(...)\<close> drops repetitions).\<close>

definition calculateTokenOverlap :: "string list \<Rightarrow> string list \<Rightarrow> real" where
  "calculateTokenOverlap tokens1 tokens2 =
     (if length tokens1 = 0 \<or> length tokens2 = 0 then 0
      else
        let set1 = remdups tokens1;
            set2 = remdups tokens2;
            intersection = filter (\<lambda>x. x \<in> set set2) set1;
            union = remdups (set1 @ set2)
        in real (length intersection) / real (length union))"

text \<open>\<open>model.toLowerCase().replace(/[^a-z0-9]/g, '')\<close>.\<close>

definition cleanModel :: "string \<Rightarrow> string" where
  "cleanModel m =
     filter (\<lambda>c. let n = (of_char c :: nat) in (97 \<le> n \<and> n \<le> 122) \<or> (48 \<le> n \<and> n \<le> 57))
       (toLowerCase m)"

definition scoreModel :: "string \<Rightarrow> string \<Rightarrow> string list \<Rightarrow> string list \<Rightarrow> real" where
  "scoreModel model1 model2 tokens1 tokens2 =
     (if model1 = [] \<or> model2 = [] then
        (let overlap = calculateTokenOverlap tokens1 tokens2 in overlap * WEIGHTS_MODEL)
      else
        let clean1 = cleanModel model1;
            clean2 = cleanModel model2
        in if clean1 = clean2 then WEIGHTS_MODEL
           else if includesStr clean1 clean2 \<or> includesStr clean2 clean1
             then WEIGHTS_MODEL * (8 / 10)
           else
             let similarity = stringSimilarity clean1 clean2
             in if similarity > 6 / 10 then WEIGHTS_MODEL * similarity else 0)"

text \<open>\<open>Math.abs(parseInt(a) - parseInt(b)) <= k\<close>; a comparison with NaN is false.\<close>

definition parsedWithin :: "string \<Rightarrow> string \<Rightarrow> int \<Rightarrow> bool" where
  "parsedWithin a b k =
     (case (parseInt a, parseInt b) of
        (Some x, Some y) \<Rightarrow> \<bar>x - y\<bar> \<le> k
      | _ \<Rightarrow> False)"

definition scoreSpecs :: "ProductFeatures \<Rightarrow> ProductFeatures \<Rightarrow> real" where
  "scoreSpecs source candidate =
     (let score0 = 0;
          score1 =
            (if storage source \<noteq> [] \<and> storage candidate \<noteq> [] then
               (if storage source = storage candidate then score0 + 8
                else if parsedWithin (storage source) (storage candidate) 128 then score0 + 4
                else score0)
             else score0);
          score2 =
            (if ram source \<noteq> [] \<and> ram candidate \<noteq> [] then
               (if ram source = ram candidate then score1 + 8
                else if parsedWithin (ram source) (ram candidate) 4 then score1 + 4
                else score1)
             else score1);
          score3 =
            (if color source \<noteq> [] \<and> color candidate \<noteq> [] then
               (if toLowerCase (color source) = toLowerCase (color candidate) then score2 + 4
                else score2)
             else score2)
      in score3)"

definition scoreTitleSimilarity ::
  "string list \<Rightarrow> string list \<Rightarrow> string list \<Rightarrow> string list \<Rightarrow> real" where
  "scoreTitleSimilarity tokens1 tokens2 bigrams1 bigrams2 =
     (let tokenOverlap = calculateTokenOverlap tokens1 tokens2;
          bigramOverlap = calculateTokenOverlap bigrams1 bigrams2;
          score = (tokenOverlap * (4 / 10) + bigramOverlap * (6 / 10)) * WEIGHTS_TITLE
      in score)"

definition scoreCategory :: "string \<Rightarrow> string \<Rightarrow> real" where
  "scoreCategory cat1 cat2 =
     (if cat1 = [] \<or> cat2 = [] then 5
      else if cat1 = cat2 then WEIGHTS_CATEGORY
      else if includesStr cat1 cat2 \<or> includesStr cat2 cat1 then WEIGHTS_CATEGORY * (7 / 10)
      else 0)"

definition scorePriceProximity :: "real \<Rightarrow> real \<Rightarrow> real" where
  "scorePriceProximity price1 price2 =
     (if price1 = 0 \<or> price2 = 0 then 0
      else
        let ratio = max price1 price2 / min price1 price2
        in if ratio \<le> 12 / 10 then 5
           else if ratio \<le> 15 / 10 then 3
           else if ratio > 2 then - 2
           else 0)"

definition calculateScore ::
  "ProductFeatures \<Rightarrow> ProductFeatures \<Rightarrow> Product \<Rightarrow> Product \<Rightarrow> ScoringBreakdown" where
  "calculateScore source candidate sourceProduct candidateProduct =
     (let bs = scoreBrand (ProductFeatures.brand source) (ProductFeatures.brand candidate);
          ms = scoreModel (ProductFeatures.model source) (ProductFeatures.model candidate)
                 (tokens source) (tokens candidate);
          ss = scoreSpecs source candidate;
          ts = scoreTitleSimilarity (tokens source) (tokens candidate)
                 (bigrams source) (bigrams candidate);
          cs = scoreCategory (category sourceProduct) (category candidateProduct);
          ps = scorePriceProximity (numericPrice sourceProduct) (numericPrice candidateProduct)
      in \<lparr> brandScore = bs, modelScore = ms, specsScore = ss, titleScore = ts,
           categoryScore = cs, priceScore = ps,
           total = min 100 (bs + ms + ss + ts + cs + ps) \<rparr>)"

definition getMatchLevel :: "real \<Rightarrow> MatchLevel" where
  "getMatchLevel score =
     (if score \<ge> 90 then EXACT
      else if score \<ge> 80 then HIGH
      else if score \<ge> 70 then MEDIUM
      else LOW)"

subsection \<open>findMatches\<close>

text \<open>
  Steps 1 to 6 of \<open>SmartMatcher.findMatches\<close>. Every function of the model is total, so the
  \<open>catch\<close> branch of the source (which returns the empty list) has no counterpart; logging
  is left out.
\<close>

definition scoreCandidate :: "TitleExtractors \<Rightarrow> Product \<Rightarrow> ProductFeatures \<Rightarrow> Product \<Rightarrow> MatchResult list" where
  "scoreCandidate X sourceProduct sourceFeatures candidate =
     (let candidateFeatures = extractFeatures X candidate;
          sc = calculateScore sourceFeatures candidateFeatures sourceProduct candidate
      in if total sc \<ge> SmartMatcher_MIN_CONFIDENCE
         then [mkMatch candidate (mathRound (total sc)) (getMatchLevel (total sc)) None (Some sc)]
         else [])"

definition SmartMatcher_findMatches ::
  "TitleExtractors \<Rightarrow> Product \<Rightarrow> Product list \<Rightarrow> MatchResult list" where
  "SmartMatcher_findMatches X sourceProduct candidates =
     (let validCandidates = preprocessCandidates candidates;
          sourceCategory = detectCategory sourceProduct;
          categoryFiltered = filterByCategory sourceProduct sourceCategory validCandidates
      in if length categoryFiltered = 0 then []
         else
           let sourceFeatures = extractFeatures X sourceProduct;
               scoredMatches = concat (map (scoreCandidate X sourceProduct sourceFeatures)
                                         categoryFiltered);
               sortedMatches = take MAX_RESULTS (sortByConfidence scoredMatches)
           in sortedMatches)"

section \<open>The legacy matcher (services/matcher.ts)\<close>

definition ProductMatcher_MIN_CONFIDENCE :: int where
  "ProductMatcher_MIN_CONFIDENCE = 25"

definition ACCESSORY_KEYWORDS :: "string list" where
  "ACCESSORY_KEYWORDS =
     [''case'', ''cover'', ''charger'', ''cable'', ''adapter'', ''holder'', ''stand'',
      ''protector'', ''screen guard'', ''tempered glass'', ''skin'', ''pouch'',
      ''sleeve'', ''bag'', ''strap'', ''band'', ''compatible'', ''accessory'']"

definition isAccessory :: "string \<Rightarrow> bool" where
  "isAccessory t =
     (let titleLower = toLowerCase t
      in list_ex (\<lambda>keyword. includesStr titleLower keyword) ACCESSORY_KEYWORDS)"

text \<open>\<open>/(phone|mobile|smartphone|laptop|tablet|watch|speaker)/i.test(s)\<close> on a lower-case
  string: one of the words occurs in it.\<close>

definition hasDeviceKeyword :: "string \<Rightarrow> bool" where
  "hasDeviceKeyword s =
     list_ex (\<lambda>w. includesStr s w)
       [''phone'', ''mobile'', ''smartphone'', ''laptop'', ''tablet'', ''watch'', ''speaker'']"

definition filterAccessories :: "Product \<Rightarrow> Product list \<Rightarrow> Product list" where
  "filterAccessories source candidates =
     (let sourceIsAccessory = isAccessory (title source)
      in filter (\<lambda>c.
           if sourceIsAccessory then True
           else
             let isAcc = isAccessory (title c)
             in if hasDeviceKeyword (toLowerCase (title c)) then True
                else \<not> isAcc) candidates)"

definition extractAttributes :: "TitleExtractors \<Rightarrow> Product \<Rightarrow> ProductAttributes" where
  "extractAttributes X product =
     \<lparr> ProductAttributes.model = extractModel X (title product),
       ProductAttributes.storage = extractStorage X (title product),
       ProductAttributes.ram = extractRAM X (title product),
       ProductAttributes.color = extractColor X (title product),
       sizeAttr = [],
       variant = [],
       ProductAttributes.brand = normalizeBrand (Product.brand product) \<rparr>"

text \<open>The loop over \<open>nums1\<close> in \<open>compareModels\<close> and \<open>compareBrands\<close>: some digit run of the
  first model, at least two digits long, is also a digit run of the second.\<close>

definition shareNumber :: "string \<Rightarrow> string \<Rightarrow> bool" where
  "shareNumber m1 m2 =
     (let nums1 = digitRuns m1;
          nums2 = digitRuns m2
      in list_ex (\<lambda>num. num \<in> set nums2 \<and> length num \<ge> 2) nums1)"

definition compareModels :: "string \<Rightarrow> string \<Rightarrow> bool" where
  "compareModels model1 model2 =
     (if model1 = [] \<or> model2 = [] then False
      else
        let clean1 = cleanModel model1;
            clean2 = cleanModel model2
        in if clean1 = clean2 then True
           else if includesStr clean1 clean2 \<or> includesStr clean2 clean1 then True
           else shareNumber clean1 clean2)"

definition commonBrands :: "string list" where
  "commonBrands =
     [''iphone'', ''samsung'', ''galaxy'', ''oneplus'', ''xiaomi'', ''redmi'', ''mi'',
      ''oppo'', ''vivo'', ''realme'', ''pixel'', ''poco'', ''motorola'', ''moto'',
      ''nokia'', ''asus'', ''lenovo'', ''dell'', ''hp'', ''acer'', ''apple'', ''macbook'']"

definition compareBrands :: "ProductAttributes \<Rightarrow> ProductAttributes \<Rightarrow> bool" where
  "compareBrands attr1 attr2 =
     (let brand1 = ProductAttributes.brand attr1;
          brand2 = ProductAttributes.brand attr2
      in if brand1 \<noteq> [] \<and> brand2 \<noteq> [] \<and> brandsMatch brand1 brand2 then True
         else
           let model1 = toLowerCase (ProductAttributes.model attr1);
               model2 = toLowerCase (ProductAttributes.model attr2)
           in if model1 \<noteq> [] \<and> model2 \<noteq> []
                 \<and> (model1 = model2 \<or> includesStr model1 model2 \<or> includesStr model2 model1)
              then True
              else if list_ex (\<lambda>b. includesStr model1 b \<and> includesStr model2 b) commonBrands
              then True
              else shareNumber model1 model2)"

definition ProductMatcher_stopWords :: "string list" where
  "ProductMatcher_stopWords =
     [''the'', ''a'', ''an'', ''and'', ''or'', ''for'', ''with'', ''from'', ''to'', ''in'',
      ''on'', ''at'']"

definition ProductMatcher_tokenize :: "string \<Rightarrow> string list" where
  "ProductMatcher_tokenize text =
     filter (\<lambda>w. length w > 2 \<and> w \<notin> set ProductMatcher_stopWords)
       (splitOnWhiteSpace
          (map (\<lambda>c. if isWordChar c \<or> isWhiteSpace c then c else CHR '' '') (toLowerCase text)))"

definition calculateTextSimilarity :: "string \<Rightarrow> string \<Rightarrow> real" where
  "calculateTextSimilarity text1 text2 =
     (let tokens1 = ProductMatcher_tokenize text1;
          tokens2 = ProductMatcher_tokenize text2;
          set1 = remdups tokens1;
          set2 = remdups tokens2;
          intersection = filter (\<lambda>x. x \<in> set set2) set1;
          union = remdups (set1 @ set2)
      in if length union > 0 then real (length intersection) / real (length union) else 0)"

definition hasCommonKeywords :: "string \<Rightarrow> string \<Rightarrow> bool" where
  "hasCommonKeywords title1 title2 =
     (let keywords1 = ProductMatcher_tokenize title1;
          keywords2 = ProductMatcher_tokenize title2;
          common = filter (\<lambda>k. k \<in> set keywords2) keywords1
      in length common \<ge> 2)"

definition sortAndLimit :: "MatchResult list \<Rightarrow> nat \<Rightarrow> MatchResult list" where
  "sortAndLimit matches limit =
     take limit
       (sortByConfidence (filter (\<lambda>m. confidence m \<ge> ProductMatcher_MIN_CONFIDENCE) matches))"

text \<open>Level 1.\<close>

definition findExactIdMatches :: "Product \<Rightarrow> Product list \<Rightarrow> MatchResult list" where
  "findExactIdMatches source candidates =
     map (\<lambda>c. mkMatch c 100 EXACT_ID None None)
       (filter (\<lambda>c. productId c = productId source) candidates)"

text \<open>Level 2: one candidate of the loop of \<open>findBrandModelStorageMatches\<close>.\<close>

definition brandModelStorageMatch ::
  "TitleExtractors \<Rightarrow> ProductAttributes \<Rightarrow> Product \<Rightarrow> MatchResult list" where
  "brandModelStorageMatch X sourceAttrs candidate =
     (let candAttrs = extractAttributes X candidate;
          modelsMatch = compareModels (ProductAttributes.model sourceAttrs)
                          (ProductAttributes.model candAttrs)
      in if modelsMatch then
           (if ProductAttributes.storage sourceAttrs \<noteq> []
               \<and> ProductAttributes.storage candAttrs \<noteq> [] then
              (if ProductAttributes.storage sourceAttrs = ProductAttributes.storage candAttrs
               then [mkMatch candidate 95 EXACT None None]
               else [mkMatch candidate 80 HIGH None None])
            else [mkMatch candidate 85 HIGH None None])
         else [])"

definition findBrandModelStorageMatches ::
  "TitleExtractors \<Rightarrow> Product \<Rightarrow> ProductAttributes \<Rightarrow> Product list \<Rightarrow> MatchResult list" where
  "findBrandModelStorageMatches X source sourceAttrs candidates =
     (if ProductAttributes.model sourceAttrs = [] then []
      else concat (map (brandModelStorageMatch X sourceAttrs) candidates))"

text \<open>The price test of levels 3 and 4: \<open>candidate.numericPrice / source.numericPrice\<close> lies
  in [0.7, 1.3]. A source price of 0 makes the quotient infinite or NaN in the source, and
  the test false.\<close>

definition priceRatioClose :: "real \<Rightarrow> real \<Rightarrow> bool" where
  "priceRatioClose candidatePrice sourcePrice =
     (sourcePrice \<noteq> 0
      \<and> candidatePrice / sourcePrice \<ge> 7 / 10 \<and> candidatePrice / sourcePrice \<le> 13 / 10)"

text \<open>Level 3.\<close>

definition brandModelMatch ::
  "TitleExtractors \<Rightarrow> Product \<Rightarrow> ProductAttributes \<Rightarrow> Product \<Rightarrow> MatchResult list" where
  "brandModelMatch X source sourceAttrs candidate =
     (let candAttrs = extractAttributes X candidate;
          brandsOk = compareBrands sourceAttrs candAttrs;
          modelsMatch = (ProductAttributes.model candAttrs \<noteq> []
                         \<and> compareModels (ProductAttributes.model sourceAttrs)
                             (ProductAttributes.model candAttrs))
      in if brandsOk \<or> modelsMatch then
           (let sim = calculateTextSimilarity (title source) (title candidate);
                conf0 = min 84 (max 70 (mathRound (70 + sim * 14)));
                conf = (if priceRatioClose (numericPrice candidate) (numericPrice source)
                        then min 95 (conf0 + 10) else conf0)
            in [mkMatch candidate conf MEDIUM (Some sim) None])
         else [])"

definition findBrandModelMatches ::
  "TitleExtractors \<Rightarrow> Product \<Rightarrow> ProductAttributes \<Rightarrow> Product list \<Rightarrow> MatchResult list" where
  "findBrandModelMatches X source sourceAttrs candidates =
     (if ProductAttributes.model sourceAttrs = [] then []
      else concat (map (brandModelMatch X source sourceAttrs) candidates))"

text \<open>Level 4.\<close>

definition fuzzyMatch ::
  "TitleExtractors \<Rightarrow> Product \<Rightarrow> ProductAttributes \<Rightarrow> Product \<Rightarrow> MatchResult list" where
  "fuzzyMatch X source sourceAttrs candidate =
     (let candAttrs = extractAttributes X candidate;
          brandsOk = compareBrands sourceAttrs candAttrs;
          sim = calculateTextSimilarity (title source) (title candidate);
          common = hasCommonKeywords (title source) (title candidate)
      in if sim \<ge> 15 / 100 \<or> brandsOk \<or> common then
           (let conf0 = min 69 (max 5 (mathRound (5 + sim * 64)));
                conf = (if priceRatioClose (numericPrice candidate) (numericPrice source)
                        then min 80 (conf0 + 15) else conf0)
            in if conf \<ge> ProductMatcher_MIN_CONFIDENCE
               then [mkMatch candidate conf LOW (Some sim) None]
               else [])
         else [])"

definition findFuzzyMatches ::
  "TitleExtractors \<Rightarrow> Product \<Rightarrow> ProductAttributes \<Rightarrow> Product list \<Rightarrow> MatchResult list" where
  "findFuzzyMatches X source sourceAttrs candidates =
     concat (map (fuzzyMatch X source sourceAttrs) candidates)"

text \<open>
  \<open>ProductMatcher.findMatches\<close>: validation, the accessory filter, then the levels with their
  early exits. As for the primary matcher the \<open>catch\<close> branch has no counterpart.
\<close>

definition ProductMatcher_findMatches ::
  "TitleExtractors \<Rightarrow> Product \<Rightarrow> Product list \<Rightarrow> MatchResult list" where
  "ProductMatcher_findMatches X sourceProduct candidates =
     (let validCandidates =
            filter (\<lambda>p. numericPrice p \<ge> 10 \<and> length (title p) \<ge> 5) candidates;
          filtered = filterAccessories sourceProduct validCandidates
      in if length filtered = 0 then []
         else
           let sourceAttrs = extractAttributes X sourceProduct;
               exactMatches = findExactIdMatches sourceProduct filtered
           in if productId sourceProduct \<noteq> [] \<and> length exactMatches > 0
              then sortAndLimit exactMatches 20
              else
                let level2 = findBrandModelStorageMatches X sourceProduct sourceAttrs filtered;
                    matches2 = level2
                in if length matches2 \<ge> 5 then sortAndLimit matches2 20
                   else
                     let level3 = findBrandModelMatches X sourceProduct sourceAttrs filtered;
                         matches3 = matches2 @ level3;
                         matches4 =
                           (if length matches3 < 3
                            then matches3 @ findFuzzyMatches X sourceProduct sourceAttrs filtered
                            else matches3)
                     in sortAndLimit matches4 20)"

section \<open>Deduplication\<close>

subsection \<open>Global replacement by a regular expression\<close>

text \<open>
  \<open>s.replace(re, '')\<close> with the flag \<open>g\<close> scans \<open>s\<close> from the left; where \<open>re\<close> matches it drops
  the match and goes on behind it, elsewhere it keeps the character. A regular expression is
  given here by the length of its match at a position, \<open>matchAt prevWord rest\<close>, where
  \<open>prevWord\<close> says whether the character before the position is a word character (for \<open>\b\<close>).
  None of the expressions below matches the empty string.
\<close>

fun removeMatches :: "(bool \<Rightarrow> string \<Rightarrow> nat option) \<Rightarrow> bool \<Rightarrow> nat \<Rightarrow> string \<Rightarrow> string" where
  "removeMatches matchAt prevWord skip [] = []"
| "removeMatches matchAt prevWord skip (c # cs) =
     (if skip > 0 then removeMatches matchAt (isWordChar c) (skip - 1) cs
      else (case matchAt prevWord (c # cs) of
              Some (Suc n) \<Rightarrow> removeMatches matchAt (isWordChar c) n cs
            | _ \<Rightarrow> c # removeMatches matchAt (isWordChar c) 0 cs))"

definition wordCharAhead :: "string \<Rightarrow> bool" where
  "wordCharAhead s = (case s of [] \<Rightarrow> False | c # cs \<Rightarrow> isWordChar c)"

text \<open>\<open>\bw\b\<close> for a literal \<open>w\<close>: \<open>w\<close> stands at the position, with a word boundary before its
  first and behind its last character.\<close>

definition wordMatch :: "string \<Rightarrow> bool \<Rightarrow> string \<Rightarrow> nat option" where
  "wordMatch w prevWord s =
     (if w \<noteq> [] \<and> startsWith s w
         \<and> prevWord \<noteq> isWordChar (hd w)
         \<and> isWordChar (last w) \<noteq> wordCharAhead (drop (length w) s)
      then Some (length w) else None)"

text \<open>\<open>\b(w1|w2|...)\b\<close>: the first alternative, in order, that matches up to a boundary.\<close>

definition anyWordMatch :: "string list \<Rightarrow> bool \<Rightarrow> string \<Rightarrow> nat option" where
  "anyWordMatch ws prevWord s =
     (case filter (\<lambda>w. wordMatch w prevWord s \<noteq> None) ws of
        [] \<Rightarrow> None
      | w # rest \<Rightarrow> Some (length w))"

text \<open>\<open>s.replace(/\s+/g, ' ')\<close>: every maximal run of white space becomes one space.\<close>

fun collapseWhiteSpace :: "bool \<Rightarrow> string \<Rightarrow> string" where
  "collapseWhiteSpace inRun [] = []"
| "collapseWhiteSpace inRun (c # cs) =
     (if isWhiteSpace c
      then (if inRun then collapseWhiteSpace True cs else CHR '' '' # collapseWhiteSpace True cs)
      else c # collapseWhiteSpace False cs)"

subsection \<open>Grouping in a Map\<close>

text \<open>
  A JavaScript \<open>Map\<close> keeps its keys in the order of their first insertion. \<open>addToGroup\<close> is
  \<open>groups.get(key).push(x)\<close>, with a new group \<open>[x]\<close> at the end for a new key; \<open>groupByKey\<close> is
  the loop over the input.
\<close>

fun addToGroup :: "'k \<Rightarrow> 'v \<Rightarrow> ('k \<times> 'v list) list \<Rightarrow> ('k \<times> 'v list) list" where
  "addToGroup k v [] = [(k, [v])]"
| "addToGroup k v ((k', vs) # g) =
     (if k' = k then (k', vs @ [v]) # g else (k', vs) # addToGroup k v g)"

definition groupByKey :: "('v \<Rightarrow> 'k) \<Rightarrow> 'v list \<Rightarrow> ('k \<times> 'v list) list" where
  "groupByKey f xs = foldl (\<lambda>g x. addToGroup (f x) x g) [] xs"

text \<open>\<open>xs.reduce(f)\<close> without a start element begins with the first element; on the empty
  array it raises a TypeError, here \<open>None\<close>.\<close>

fun reduceList :: "('a \<Rightarrow> 'a \<Rightarrow> 'a) \<Rightarrow> 'a list \<Rightarrow> 'a option" where
  "reduceList f [] = None"
| "reduceList f (x # xs) = Some (foldl f x xs)"

subsection \<open>deduplicateColorVariants (the deduplicator of the match results)\<close>

definition colorKeywords :: "string list" where
  "colorKeywords =
     [''black'', ''white'', ''blue'', ''red'', ''green'', ''yellow'', ''pink'', ''purple'',
      ''grey'', ''gray'', ''silver'', ''gold'', ''rose'', ''midnight'', ''starlight'',
      ''coral'', ''velvet'', ''ocean'', ''space'', ''titanium'', ''natural'', ''pro'']"

text \<open>The title in lower case, each colour keyword removed in turn (with a \<open>trim\<close> after each
  removal), then white space collapsed and trimmed.\<close>

definition baseTitle :: "string \<Rightarrow> string" where
  "baseTitle t =
     (let stripped = foldl (\<lambda>b color. trim (removeMatches (wordMatch color) False 0 b))
                       (toLowerCase t) colorKeywords
      in trim (collapseWhiteSpace False stripped))"

definition variantKey :: "MatchResult \<Rightarrow> string" where
  "variantKey m = site m @ ''|'' @ Product.brand m @ ''|'' @ baseTitle (title m)"

text \<open>The body of \<open>groups.forEach\<close>: what one group contributes. A group is created with its
  first member, so the \<open>None\<close> of \<open>reduceList\<close> does not arise.\<close>

definition keepCheapest :: "MatchResult list \<Rightarrow> MatchResult list" where
  "keepCheapest variants =
     (if length variants = 1 then [variants ! 0]
      else (case reduceList (\<lambda>min curr. if numericPrice curr < numericPrice min then curr else min)
                   variants of
              Some cheapest \<Rightarrow> [cheapest]
            | None \<Rightarrow> []))"

definition deduplicateColorVariants :: "MatchResult list \<Rightarrow> MatchResult list" where
  "deduplicateColorVariants matches =
     concat (map (\<lambda>(key, variants). keepCheapest variants) (groupByKey variantKey matches))"

subsection \<open>deduplicateProducts (utils/deduplication.ts, applied to the candidates)\<close>

definition normalizeKeyColors :: "string list" where
  "normalizeKeyColors =
     [''black'', ''white'', ''red'', ''blue'', ''green'', ''yellow'', ''pink'', ''purple'',
      ''orange'', ''grey'', ''gray'', ''brown'', ''beige'', ''navy'', ''maroon'', ''teal'',
      ''olive'', ''gold'', ''silver'', ''rose'', ''mint'', ''coral'', ''cream'', ''ivory'',
      ''khaki'', ''cyan'', ''magenta'']"

text \<open>
  \<open>/\b\d+(\.\d+)?\s*(gb|tb|mb|kg|g|ml|l|inch|cm|mm)\b/\<close>: at a word boundary a run of digits,
  a fraction if one follows, white space, and a unit that ends at a word boundary. Every part
  is forced: a shorter run of digits or of white space is followed by a digit or by white
  space, where no unit starts.
\<close>

definition measureUnits :: "string list" where
  "measureUnits = [''gb'', ''tb'', ''mb'', ''kg'', ''g'', ''ml'', ''l'', ''inch'', ''cm'', ''mm'']"

definition measureMatch :: "bool \<Rightarrow> string \<Rightarrow> nat option" where
  "measureMatch prevWord s =
     (let ds = takeWhile isDigitChar s;
          r1 = dropWhile isDigitChar s;
          frac = (case r1 of
                    c # r \<Rightarrow> if c = CHR ''.'' \<and> takeWhile isDigitChar r \<noteq> []
                              then c # takeWhile isDigitChar r else []
                  | [] \<Rightarrow> []);
          r2 = drop (length frac) r1;
          ws = takeWhile isWhiteSpace r2;
          r3 = dropWhile isWhiteSpace r2
      in if prevWord \<or> ds = [] then None
         else (case filter (\<lambda>u. startsWith r3 u \<and> \<not> wordCharAhead (drop (length u) r3))
                      measureUnits of
                 [] \<Rightarrow> None
               | u # rest \<Rightarrow> Some (length ds + length frac + length ws + length u)))"

definition normalizeProductKey :: "Product \<Rightarrow> string" where
  "normalizeProductKey product =
     (let key0 = toLowerCase (title product);
          key1 = foldl (\<lambda>k color. removeMatches (wordMatch color) False 0 k) key0
                   normalizeKeyColors;
          key2 = removeMatches
                   (anyWordMatch [''xs'', ''s'', ''m'', ''l'', ''xl'', ''xxl'', ''xxxl''])
                   False 0 key1;
          key3 = removeMatches measureMatch False 0 key2;
          key4 = foldl (\<lambda>k word. removeMatches (wordMatch word) False 0 k) key3
                   [''variant'', ''color'', ''colour'', ''size'', ''pack of'', ''combo''];
          key5 = trim (collapseWhiteSpace False key4)
      in toLowerCase (Product.brand product) @ '':'' @ key5)"

text \<open>\<open>a < b\<close> on strings: the order of the code units, a proper prefix first.\<close>

fun stringLess :: "string \<Rightarrow> string \<Rightarrow> bool" where
  "stringLess [] [] = False"
| "stringLess [] (y # ys) = True"
| "stringLess (x # xs) [] = False"
| "stringLess (x # xs) (y # ys) =
     ((of_char x :: nat) < of_char y \<or> (x = y \<and> stringLess xs ys))"

text \<open>\<open>deduplicateSiteProducts\<close> compares the display strings \<open>price\<close>, not \<open>numericPrice\<close>.\<close>

definition keepCheapestProduct :: "Product list \<Rightarrow> Product list" where
  "keepCheapestProduct grp =
     (if length grp = 1 then [grp ! 0]
      else (case reduceList (\<lambda>min p. if stringLess (price p) (price min) then p else min) grp of
              Some cheapest \<Rightarrow> [cheapest]
            | None \<Rightarrow> []))"

definition deduplicateSiteProducts :: "Product list \<Rightarrow> Product list" where
  "deduplicateSiteProducts products =
     concat (map (\<lambda>(key, grp). keepCheapestProduct grp) (groupByKey normalizeProductKey products))"

definition deduplicateProducts :: "Product list \<Rightarrow> Product list" where
  "deduplicateProducts products =
     concat (map (\<lambda>(s, siteProducts). deduplicateSiteProducts siteProducts)
               (groupByKey site products))"

text \<open>The keys of a list in the order of their first occurrence: the key order of the
  \<open>Map\<close> that \<open>groupByKey\<close> builds.\<close>

definition firstOccurrences :: "'k list \<Rightarrow> 'k list" where
  "firstOccurrences ks = rev (remdups (rev ks))"

text \<open>The common shape of the three deduplication functions: group by a key, and let
  \<open>pick\<close> say what each group contributes.\<close>

definition pickPerGroup :: "('v \<Rightarrow> 'k) \<Rightarrow> ('v list \<Rightarrow> 'v list) \<Rightarrow> 'v list \<Rightarrow> 'v list" where
  "pickPerGroup f pick xs = concat (map (\<lambda>(k, vs). pick vs) (groupByKey f xs))"

section \<open>Concrete inputs\<close>

text \<open>Inputs for the closed instances further down. \<open>exExtractors\<close> recognises one model
  name and nothing else; \<open>exSource\<close> and \<open>exPhone\<close> are the source and candidate A of the
  scenario in section 8 of the specification.\<close>

definition exExtractors :: TitleExtractors where
  "exExtractors =
     \<lparr> extractModel = (\<lambda>t. if includesStr (toLowerCase t) ''iphone 15 pro max''
                            then ''iPhone 15 Pro Max'' else []),
       extractStorage = (\<lambda>t. []),
       extractRAM = (\<lambda>t. []),
       extractColor = (\<lambda>t. []),
       extractKeywords = (\<lambda>t. []) \<rparr>"

definition exSource :: Product where
  "exSource =
     \<lparr> site = ''amazon'', title = ''Apple iPhone 15 Pro Max 256GB Blue Titanium'',
       price = ''139900'', numericPrice = 139900, url = ''u0'', image = ''i0'',
       productId = ''B0CHX1W1XY'', brand = ''Apple'', category = ''electronics-phone'' \<rparr>"

definition exPhone :: Product where
  "exPhone =
     \<lparr> site = ''flipkart'', title = ''Apple iPhone 15 Pro Max (256 GB) - Blue Titanium'',
       price = ''138999'', numericPrice = 138999, url = ''u1'', image = ''i1'',
       productId = ''MOBGTAGP'', brand = ''Apple'', category = ''electronics-phone'' \<rparr>"

definition exLaptop :: Product where
  "exLaptop =
     \<lparr> site = ''flipkart'', title = ''Dell Inspiron 15 Laptop'',
       price = ''55990'', numericPrice = 55990, url = ''u2'', image = ''i2'',
       productId = ''COMGZ7Q2'', brand = ''Dell'', category = ''electronics-laptop'' \<rparr>"

definition exChairFeatures :: ProductFeatures where
  "exChairFeatures =
     \<lparr> ProductFeatures.brand = [], ProductFeatures.model = [], ProductFeatures.storage = [],
       ProductFeatures.ram = [], ProductFeatures.color = [],
       tokens = [''gaming'', ''chair''], bigrams = [''gaming chair''], trigrams = [],
       numbers = [], keywordsOf = [], titleLower = ''gaming chair'' \<rparr>"

definition exBottleFeatures :: ProductFeatures where
  "exBottleFeatures =
     \<lparr> ProductFeatures.brand = [], ProductFeatures.model = [], ProductFeatures.storage = [],
       ProductFeatures.ram = [], ProductFeatures.color = [],
       tokens = [''steel'', ''bottle''], bigrams = [''steel bottle''], trigrams = [],
       numbers = [], keywordsOf = [], titleLower = ''steel bottle'' \<rparr>"

definition exChair :: Product where
  "exChair =
     \<lparr> site = ''amazon'', title = ''Gaming Chair'', price = ''5000'', numericPrice = 5000,
       url = ''u3'', image = ''i3'', productId = ''CH1'', brand = [], category = ''furniture'' \<rparr>"

definition exBottle :: Product where
  "exBottle =
     \<lparr> site = ''flipkart'', title = ''Steel Bottle'', price = ''500'', numericPrice = 500,
       url = ''u4'', image = ''i4'', productId = ''BT1'', brand = [], category = ''kitchen'' \<rparr>"



text \<open>The breakdown \<open>calculateScore\<close> computes for \<open>exSource\<close> and \<open>exPhone\<close>.\<close>

definition exScoring :: ScoringBreakdown where
  "exScoring = \<lparr> brandScore = 25, modelScore = 30, specsScore = 0, titleScore = 87 / 10,
                 categoryScore = 10, priceScore = 5, total = 787 / 10 \<rparr>"

text \<open>Candidates that carry the source's product identifier: the same phone, and a cover.
  \<open>exNoIdSource\<close> and \<open>exNoIdPhone\<close> are a source and a candidate without identifier.\<close>

definition exTwin :: Product where
  "exTwin = exPhone \<lparr> productId := ''B0CHX1W1XY'' \<rparr>"

definition exCover :: Product where
  "exCover =
     \<lparr> site = ''flipkart'', title = ''Silicone Back Cover Blue'',
       price = ''499'', numericPrice = 499, url = ''u5'', image = ''i5'',
       productId = ''B0CHX1W1XY'', brand = ''Apple'', category = ''electronics-phone'' \<rparr>"

definition exNoIdSource :: Product where
  "exNoIdSource = exSource \<lparr> productId := [] \<rparr>"

definition exNoIdPhone :: Product where
  "exNoIdPhone = exPhone \<lparr> productId := [] \<rparr>"

text \<open>Two colour variants of one phone on one site, and a third result; two listings of one
  product on one site whose display prices, 999 and 1,299, compare as strings the other way
  round than as numbers.\<close>

definition exBlack :: MatchResult where
  "exBlack =
     mkMatch \<lparr> site = ''amazon'', title = ''iPhone 15 Black'', price = ''79900'',
               numericPrice = 79900, url = ''u6'', image = ''i6'', productId = ''P6'',
               brand = ''Apple'', category = ''electronics-phone'' \<rparr> 90 EXACT None None"

definition exWhite :: MatchResult where
  "exWhite =
     mkMatch \<lparr> site = ''amazon'', title = ''iPhone 15 White'', price = ''78900'',
               numericPrice = 78900, url = ''u7'', image = ''i7'', productId = ''P7'',
               brand = ''Apple'', category = ''electronics-phone'' \<rparr> 90 EXACT None None"

definition exOther :: MatchResult where
  "exOther = mkMatch exLaptop 70 MEDIUM None None"

definition exShirt999 :: Product where
  "exShirt999 =
     \<lparr> site = ''myntra'', title = ''Polo Shirt Red'', price = ''999'', numericPrice = 999,
       url = ''u8'', image = ''i8'', productId = ''S8'', brand = ''Nike'',
       category = ''fashion'' \<rparr>"

definition exShirt1299 :: Product where
  "exShirt1299 =
     \<lparr> site = ''myntra'', title = ''Polo Shirt Blue'', price = ''1,299'', numericPrice = 1299,
       url = ''u9'', image = ''i9'', productId = ''S9'', brand = ''Nike'',
       category = ''fashion'' \<rparr>"

section \<open>Evaluating the string functions\<close>

lemma char_of_numeral_bits:
  "char_of (numeral k :: nat)
     = Char (odd (numeral k :: nat)) (odd (numeral k div 2 :: nat)) (odd (numeral k div 4 :: nat))
            (odd (numeral k div 8 :: nat)) (odd (numeral k div 16 :: nat))
            (odd (numeral k div 32 :: nat)) (odd (numeral k div 64 :: nat))
            (odd (numeral k div 128 :: nat))"
  by (simp add: char_of_def bit_iff_odd)

lemmas string_eval = toLowerCase_def toLowerChar_def toUpperCase_def toUpperChar_def
  char_of_numeral_bits trim_def isWhiteSpace_def isWordChar_def isDigitChar_def

lemmas score_eval = scoreBrand_def brandsMatch_def scoreModel_def cleanModel_def scoreSpecs_def
  scoreTitleSimilarity_def scoreCategory_def scorePriceProximity_def calculateTokenOverlap_def
  WEIGHTS_BRAND_def WEIGHTS_MODEL_def WEIGHTS_TITLE_def WEIGHTS_CATEGORY_def

section \<open>Levenshtein distance and the similarity ratio\<close>

lemma levRow_same:
  "j \<le> length s \<Longrightarrow> i < length s \<Longrightarrow>
   levRow (s ! i) (drop j s) (map (absDiff i) [j ..< Suc (length s)]) (absDiff (Suc i) j)
     = map (absDiff (Suc i)) [Suc j ..< Suc (length s)]"
proof (induction "length s - j" arbitrary: j)
  case 0
  then show ?case by simp
next
  case (Suc k)
  then have jl: "j < length s" by simp
  have dr: "drop j s = s ! j # drop (Suc j) s"
    using jl by (simp add: Cons_nth_drop_Suc)
  have u1: "[j ..< Suc (length s)] = j # Suc j # [Suc (Suc j) ..< Suc (length s)]"
    using jl by (simp add: upt_conv_Cons)
  have u2: "[Suc j ..< Suc (length s)] = Suc j # [Suc (Suc j) ..< Suc (length s)]"
    using jl by (simp add: upt_conv_Cons)
  have IH: "levRow (s ! i) (drop (Suc j) s) (map (absDiff i) [Suc j ..< Suc (length s)])
              (absDiff (Suc i) (Suc j))
            = map (absDiff (Suc i)) [Suc (Suc j) ..< Suc (length s)]"
    using Suc.hyps(1)[of "Suc j"] Suc.hyps(2) Suc.prems jl by (simp del: upt_Suc)
  have v: "(if s ! i = s ! j then absDiff i j
            else min (absDiff i j + 1) (min (absDiff (Suc i) j + 1) (absDiff i (Suc j) + 1)))
           = absDiff (Suc i) (Suc j)"
    by (cases "i = j") (auto simp: absDiff_def)
  show ?case
    unfolding dr u1 
    apply (simp only: list.map levRow.simps Let_def v)
    using IH unfolding u2 by (simp del: upt_Suc)
qed

lemma levRows_same:
  "i \<le> length s \<Longrightarrow>
   levRows s (drop i s) (map (absDiff i) [0 ..< Suc (length s)]) (Suc i)
     = map (\<lambda>k. map (absDiff k) [0 ..< Suc (length s)]) [Suc i ..< Suc (length s)]"
proof (induction "length s - i" arbitrary: i)
  case 0
  then show ?case by simp
next
  case (Suc k)
  then have il: "i < length s" by simp
  have dr: "drop i s = s ! i # drop (Suc i) s"
    using il by (simp add: Cons_nth_drop_Suc)
  have row: "Suc i # levRow (s ! i) s (map (absDiff i) [0 ..< Suc (length s)]) (Suc i)
             = map (absDiff (Suc i)) [0 ..< Suc (length s)]"
  proof -
    have "levRow (s ! i) (drop 0 s) (map (absDiff i) [0 ..< Suc (length s)]) (absDiff (Suc i) 0)
          = map (absDiff (Suc i)) [Suc 0 ..< Suc (length s)]"
      using il by (intro levRow_same) simp_all
    moreover have "[0 ..< Suc (length s)] = 0 # [Suc 0 ..< Suc (length s)]"
      by (rule upt_conv_Cons) simp
    ultimately show ?thesis by (simp del: upt_Suc add: absDiff_def)
  qed
  have IH: "levRows s (drop (Suc i) s) (map (absDiff (Suc i)) [0 ..< Suc (length s)]) (Suc (Suc i))
            = map (\<lambda>k. map (absDiff k) [0 ..< Suc (length s)]) [Suc (Suc i) ..< Suc (length s)]"
    using Suc.hyps(1)[of "Suc i"] Suc.hyps(2) il by (simp del: upt_Suc)
  have u: "[Suc i ..< Suc (length s)] = Suc i # [Suc (Suc i) ..< Suc (length s)]"
    using il by (simp add: upt_conv_Cons)
  show ?case
    unfolding dr u
    by (simp only: levRows.simps Let_def row IH list.map Suc_eq_plus1[symmetric])
qed

lemma levenshteinMatrix_same:
  "levenshteinMatrix s s = map (\<lambda>k. map (absDiff k) [0 ..< Suc (length s)]) [0 ..< Suc (length s)]"
proof -
  have a: "map (absDiff 0) [0 ..< Suc (length s)] = [0 ..< Suc (length s)]"
    by (rule map_idI) (simp del: upt_Suc add: absDiff_def)
  have "levRows s (drop 0 s) (map (absDiff 0) [0 ..< Suc (length s)]) (Suc 0)
        = map (\<lambda>k. map (absDiff k) [0 ..< Suc (length s)]) [Suc 0 ..< Suc (length s)]"
    by (rule levRows_same) simp
  moreover have "[0 ..< Suc (length s)] = 0 # [Suc 0 ..< Suc (length s)]"
    by (rule upt_conv_Cons) simp
  ultimately show ?thesis
    unfolding levenshteinMatrix_def Let_def using a by (simp del: upt_Suc)
qed

lemma levenshteinDistance_same: "levenshteinDistance s s = 0"
proof -
  have "levenshteinMatrix s s ! length s ! length s = absDiff (length s) (length s)"
    unfolding levenshteinMatrix_same
    by (simp del: upt_Suc add: nth_map_upt)
  then show ?thesis by (simp add: levenshteinDistance_def absDiff_def)
qed

lemma levRows_empty1: "levRows [] cs prev i = map (\<lambda>k. [k]) [i ..< i + length cs]"
proof (induction cs arbitrary: prev i)
  case Nil
  then show ?case by simp
next
  case (Cons c cs)
  have "[i ..< i + length (c # cs)] = i # [Suc i ..< Suc i + length cs]"
    by (simp add: upt_rec)
  then show ?case using Cons.IH by simp
qed

lemma levenshteinDistance_empty1: "levenshteinDistance [] s = length s"
proof -
  have "levenshteinMatrix [] s = map (\<lambda>k. [k]) [0 ..< Suc (length s)]"
    unfolding levenshteinMatrix_def Let_def levRows_empty1
    by (simp del: upt_Suc add: upt_conv_Cons[of 0])
  then show ?thesis 
    unfolding levenshteinDistance_def by (simp del: upt_Suc)
qed

lemma levenshteinDistance_empty2: "levenshteinDistance s [] = length s"
  unfolding levenshteinDistance_def levenshteinMatrix_def
  by (simp del: upt_Suc add: nth_upt)

text \<open>
  Claim C9, as amended. For all strings \<open>str1\<close>, \<open>str2\<close> that are not both empty,
  \<open>stringSimilarity\<close> returns \<open>(max(len1, len2) - levenshteinDistance) / max(len1, len2)\<close>;
  identical strings (empty or not) yield 1, and when exactly one of the two strings is empty the
  result is 0. The source tests \<open>str1 === str2\<close> before it tests for an empty string, so two
  empty strings yield 1, not 0.
\<close>

theorem stringSimilarity_ratio:
  "(\<not> (str1 = [] \<and> str2 = []) \<longrightarrow>
      stringSimilarity str1 str2
        = (real (max (length str1) (length str2)) - real (levenshteinDistance str1 str2))
            / real (max (length str1) (length str2)))
   \<and> (str1 = str2 \<longrightarrow> stringSimilarity str1 str2 = 1)
   \<and> (str1 \<noteq> str2 \<and> (str1 = [] \<or> str2 = []) \<longrightarrow> stringSimilarity str1 str2 = 0)"
proof (intro conjI impI)
  assume ne: "\<not> (str1 = [] \<and> str2 = [])"
  show "stringSimilarity str1 str2
        = (real (max (length str1) (length str2)) - real (levenshteinDistance str1 str2))
            / real (max (length str1) (length str2))"
  proof (cases "str1 = str2")
    case True
    with ne show ?thesis
      by (simp add: stringSimilarity_def levenshteinDistance_same)
  next
    case False
    show ?thesis
    proof (cases "str1 = [] \<or> str2 = []")
      case True
      with False show ?thesis
        by (auto simp: stringSimilarity_def levenshteinDistance_empty1 levenshteinDistance_empty2)
    next
      case False
      with \<open>str1 \<noteq> str2\<close> show ?thesis
        by (simp add: stringSimilarity_def Let_def max_def)
    qed
  qed
next
  assume "str1 = str2"
  then show "stringSimilarity str1 str2 = 1" by (simp add: stringSimilarity_def)
next
  assume "str1 \<noteq> str2 \<and> (str1 = [] \<or> str2 = [])"
  then show "stringSimilarity str1 str2 = 0" by (auto simp: stringSimilarity_def)
qed

theorem stringSimilarity_ratio_witness:
  "stringSimilarity ''kitten'' ''sitting'' = (7 - 3) / 7
   \<and> stringSimilarity ''iphone15'' ''iphone15'' = 1
   \<and> stringSimilarity '''' ''iphone15'' = 0"
proof -
  have d: "levenshteinDistance ''kitten'' ''sitting'' = 3"
    by (simp add: levenshteinDistance_def levenshteinMatrix_def upt_rec)
  show ?thesis
    using stringSimilarity_ratio [of "''kitten''" "''sitting''"]
      stringSimilarity_ratio [of "''iphone15''" "''iphone15''"]
      stringSimilarity_ratio [of "''''" "''iphone15''"] d
    by simp
qed

text \<open>The claim as stated (either string empty gives 0) fails when both strings are empty.\<close>

theorem stringSimilarity_both_empty:
  "stringSimilarity [] [] = 1 \<and> stringSimilarity [] [] \<noteq> 0"
  by (simp add: stringSimilarity_def)

section \<open>The scoring breakdown\<close>

subsection \<open>Bounds of the sub-scores\<close>

lemma calculateTokenOverlap_bounds:
  "0 \<le> calculateTokenOverlap t1 t2 \<and> calculateTokenOverlap t1 t2 \<le> 1"
proof -
  have "length (filter (\<lambda>x. x \<in> set (remdups t2)) (remdups t1))
        \<le> length (remdups (remdups t1 @ remdups t2))"
  proof -
    have "length (filter (\<lambda>x. x \<in> set (remdups t2)) (remdups t1)) \<le> length (remdups t1)"
      by (rule length_filter_le)
    also have "\<dots> = card (set t1)" by (simp add: length_remdups_card_conv)
    also have "\<dots> \<le> card (set t1 \<union> set t2)" by (intro card_mono) auto
    also have "\<dots> = length (remdups (remdups t1 @ remdups t2))"
      by (simp add: length_remdups_card_conv)
    finally show ?thesis .
  qed
  then show ?thesis
    by (auto simp: calculateTokenOverlap_def Let_def divide_le_eq_1)
qed

lemma stringSimilarity_le_1: "stringSimilarity a b \<le> 1"
  by (auto simp: stringSimilarity_def Let_def divide_le_eq_1)

lemma scoreBrand_bounds: "0 \<le> scoreBrand b1 b2 \<and> scoreBrand b1 b2 \<le> 25"
  by (simp add: scoreBrand_def Let_def WEIGHTS_BRAND_def)

lemma scoreModel_bounds: "0 \<le> scoreModel m1 m2 t1 t2 \<and> scoreModel m1 m2 t1 t2 \<le> 30"
  using calculateTokenOverlap_bounds [of t1 t2]
    stringSimilarity_le_1 [of "cleanModel m1" "cleanModel m2"]
  by (auto simp: scoreModel_def Let_def WEIGHTS_MODEL_def)

lemma scoreSpecs_bounds: "0 \<le> scoreSpecs s c \<and> scoreSpecs s c \<le> 20"
  by (simp add: scoreSpecs_def Let_def)

lemma scoreTitleSimilarity_bounds:
  "0 \<le> scoreTitleSimilarity t1 t2 g1 g2 \<and> scoreTitleSimilarity t1 t2 g1 g2 \<le> 15"
  using calculateTokenOverlap_bounds [of t1 t2] calculateTokenOverlap_bounds [of g1 g2]
  by (auto simp: scoreTitleSimilarity_def Let_def WEIGHTS_TITLE_def)

lemma scoreCategory_bounds: "0 \<le> scoreCategory c1 c2 \<and> scoreCategory c1 c2 \<le> 10"
  by (simp add: scoreCategory_def WEIGHTS_CATEGORY_def)

lemma scorePriceProximity_values: "scorePriceProximity p1 p2 \<in> {0, 5, 3, - 2}"
  by (simp add: scorePriceProximity_def Let_def)

lemma scorePriceProximity_bounds:
  "- 2 \<le> scorePriceProximity p1 p2 \<and> scorePriceProximity p1 p2 \<le> 5
   \<and> (0 \<le> scorePriceProximity p1 p2 \<or> scorePriceProximity p1 p2 = - 2)"
  by (simp add: scorePriceProximity_def Let_def)

text \<open>
  Claim C1, as amended. For every pair of feature records and every pair of products,
  \<open>calculateScore\<close> returns a breakdown whose total is the minimum of 100 and the sum of the six
  sub-scores, and the total lies between -2 and 100; it is below 0 only when the price
  sub-score is the penalty -2. The source clamps the total from above only.
\<close>

theorem calculateScore_total:
  "total (calculateScore source candidate sourceProduct candidateProduct)
     = min 100
         (brandScore (calculateScore source candidate sourceProduct candidateProduct)
          + modelScore (calculateScore source candidate sourceProduct candidateProduct)
          + specsScore (calculateScore source candidate sourceProduct candidateProduct)
          + titleScore (calculateScore source candidate sourceProduct candidateProduct)
          + categoryScore (calculateScore source candidate sourceProduct candidateProduct)
          + priceScore (calculateScore source candidate sourceProduct candidateProduct))
   \<and> - 2 \<le> total (calculateScore source candidate sourceProduct candidateProduct)
   \<and> total (calculateScore source candidate sourceProduct candidateProduct) \<le> 100
   \<and> (0 \<le> total (calculateScore source candidate sourceProduct candidateProduct)
      \<or> priceScore (calculateScore source candidate sourceProduct candidateProduct) = - 2)"
  using scoreBrand_bounds [of "ProductFeatures.brand source" "ProductFeatures.brand candidate"]
    scoreModel_bounds [of "ProductFeatures.model source" "ProductFeatures.model candidate"
      "tokens source" "tokens candidate"]
    scoreSpecs_bounds [of source candidate]
    scoreTitleSimilarity_bounds [of "tokens source" "tokens candidate"
      "bigrams source" "bigrams candidate"]
    scoreCategory_bounds [of "category sourceProduct" "category candidateProduct"]
    scorePriceProximity_bounds [of "numericPrice sourceProduct" "numericPrice candidateProduct"]
  by (simp add: calculateScore_def Let_def) linarith

text \<open>The claim as stated (total in [0, 100]) fails for two unrelated products whose prices,
  both positive, are more than a factor 2 apart.\<close>

theorem calculateScore_total_negative:
  "numericPrice exChair \<ge> 0 \<and> numericPrice exBottle \<ge> 0
   \<and> total (calculateScore exChairFeatures exBottleFeatures exChair exBottle) = - 2
   \<and> \<not> 0 \<le> total (calculateScore exChairFeatures exBottleFeatures exChair exBottle)"
  by (simp add: calculateScore_def exChairFeatures_def exBottleFeatures_def exChair_def
      exBottle_def scoreBrand_def scoreModel_def scoreSpecs_def scoreTitleSimilarity_def
      scoreCategory_def scorePriceProximity_def calculateTokenOverlap_def Let_def
      WEIGHTS_MODEL_def WEIGHTS_TITLE_def)

subsection \<open>The storage part of the specs sub-score\<close>

text \<open>\<open>extractStorage\<close> returns the empty string or \<open>match[1] + match[2].toUpperCase()\<close> for
  its expression \<open>/\b(\d+)\s*(gb|tb)\b/i\<close>: a run of digits followed by \<open>GB\<close> or \<open>TB\<close>. On such
  a string \<open>parseInt\<close> reads the run of digits.\<close>

lemma digit_facts:
  assumes "isDigitChar c"
  shows "\<not> isWhiteSpace c" "c \<noteq> CHR ''-''" "c \<noteq> CHR ''+''" "c \<noteq> CHR ''x''" "c \<noteq> CHR ''X''"
    "digitValue c < 10"
  using assms by (auto simp: isDigitChar_def isWhiteSpace_def digitValue_def Let_def)

lemma parseInt_digits_unit:
  assumes "ds \<noteq> []" and "list_all isDigitChar ds" and "u = ''GB'' \<or> u = ''TB''"
  shows "parseInt (ds @ u) = Some (digitsValue 10 ds)"
proof -
  from assms(1) obtain d rest where ds: "ds = d # rest" by (cases ds) auto
  with assms(2) have d: "isDigitChar d" and rest: "list_all isDigitChar rest" by simp_all
  have ws: "dropWhile isWhiteSpace (ds @ u) = ds @ u"
    using digit_facts(1)[OF d] by (simp add: ds)
  have sg: "\<not> startsWith (ds @ u) ''-''" "\<not> startsWith (ds @ u) ''+''"
    using digit_facts(2,3)[OF d] by (simp_all add: ds)
  have hx: "\<not> startsWith (ds @ u) ''0x''" "\<not> startsWith (ds @ u) ''0X''"
  proof -
    have "\<exists>e r. rest @ u = e # r \<and> e \<noteq> CHR ''x'' \<and> e \<noteq> CHR ''X''"
    proof (cases rest)
      case Nil
      with assms(3) show ?thesis by auto
    next
      case (Cons e r)
      with rest have "isDigitChar e" by simp
      from digit_facts(4,5)[OF this] Cons show ?thesis by simp
    qed
    then obtain e r where "rest @ u = e # r" "e \<noteq> CHR ''x''" "e \<noteq> CHR ''X''" by blast
    then show "\<not> startsWith (ds @ u) ''0x''" "\<not> startsWith (ds @ u) ''0X''"
      by (simp_all add: ds)
  qed
  have tw: "takeWhile (\<lambda>c. digitValue c < 10) (ds @ u) = ds"
  proof -
    have "\<forall>c \<in> set ds. digitValue c < 10"
      using assms(2) digit_facts(6) by (auto simp: list_all_iff)
    moreover have "\<not> digitValue (hd u) < 10" "u \<noteq> []"
      using assms(3) by (auto simp: digitValue_def)
    ultimately show ?thesis
      by (cases u) (simp_all add: takeWhile_append2)
  qed
  show ?thesis
    using assms(1) by (simp add: parseInt_def Let_def ws sg hx tw)
qed



section \<open>The primary matcher\<close>

lemma mkMatch_sel [simp]:
  "title (mkMatch c conf lvl sim sc) = title c"
  "category (mkMatch c conf lvl sim sc) = category c"
  "numericPrice (mkMatch c conf lvl sim sc) = numericPrice c"
  "site (mkMatch c conf lvl sim sc) = site c"
  "Product.brand (mkMatch c conf lvl sim sc) = Product.brand c"
  "productId (mkMatch c conf lvl sim sc) = productId c"
  "confidence (mkMatch c conf lvl sim sc) = conf"
  "matchLevel (mkMatch c conf lvl sim sc) = lvl"
  "similarity (mkMatch c conf lvl sim sc) = sim"
  "scoring (mkMatch c conf lvl sim sc) = sc"
  "Product.truncate (mkMatch c conf lvl sim sc) = c"
  by (simp_all add: mkMatch_def Product.defs MatchResult.defs)

lemma detectCategory_mkMatch [simp]:
  "detectCategory (mkMatch c conf lvl sim sc) = detectCategory c"
  by (simp add: detectCategory_def)

lemma set_sortByConfidence [simp]: "set (sortByConfidence ms) = set ms"
  by (simp add: sortByConfidence_def)

lemma length_sortByConfidence [simp]: "length (sortByConfidence ms) = length ms"
  by (simp add: sortByConfidence_def)

lemma sorted_sortByConfidence:
  "sorted_wrt (\<lambda>a b. confidence a \<ge> confidence b) (sortByConfidence ms)"
proof -
  have "sorted (map (\<lambda>m. - confidence m) (sortByConfidence ms))"
    by (simp add: sortByConfidence_def)
  then show ?thesis
    by (simp add: sorted_map) 
qed

lemma sorted_wrt_take': "sorted_wrt P xs \<Longrightarrow> sorted_wrt P (take n xs)"
  by (metis append_take_drop_id sorted_wrt_append)

lemma filterByCategory_sound:
  assumes "c \<in> set (filterByCategory source sourceCategory candidates)"
  shows "c \<in> set candidates"
    and "sourceCategory = ''phone'' \<Longrightarrow> detectCategory c \<noteq> ''laptop''"
    and "sourceCategory = ''laptop'' \<Longrightarrow> detectCategory c \<noteq> ''phone''"
  using assms by (auto simp: filterByCategory_def Let_def split: if_splits)

lemma SmartMatcher_findMatches_origin:
  assumes "m \<in> set (SmartMatcher_findMatches X sourceProduct candidates)"
  shows "\<exists>c \<in> set (filterByCategory sourceProduct (detectCategory sourceProduct)
                 (preprocessCandidates candidates)).
    m = mkMatch c
           (mathRound (total (calculateScore (extractFeatures X sourceProduct)
              (extractFeatures X c) sourceProduct c)))
           (getMatchLevel (total (calculateScore (extractFeatures X sourceProduct)
              (extractFeatures X c) sourceProduct c)))
           None
           (Some (calculateScore (extractFeatures X sourceProduct) (extractFeatures X c)
              sourceProduct c))
    \<and> total (calculateScore (extractFeatures X sourceProduct) (extractFeatures X c)
          sourceProduct c) \<ge> 70"
proof -
  from assms have
    "m \<in> set (concat (map (scoreCandidate X sourceProduct (extractFeatures X sourceProduct))
        (filterByCategory sourceProduct (detectCategory sourceProduct)
           (preprocessCandidates candidates))))"
    by (auto simp: SmartMatcher_findMatches_def Let_def split: if_splits dest: in_set_takeD)
  then obtain c where c:
    "c \<in> set (filterByCategory sourceProduct (detectCategory sourceProduct)
                 (preprocessCandidates candidates))"
    "m \<in> set (scoreCandidate X sourceProduct (extractFeatures X sourceProduct) c)"
    by auto
  from c(2) have
    "total (calculateScore (extractFeatures X sourceProduct) (extractFeatures X c) sourceProduct c)
       \<ge> 70
     \<and> m = mkMatch c
           (mathRound (total (calculateScore (extractFeatures X sourceProduct)
              (extractFeatures X c) sourceProduct c)))
           (getMatchLevel (total (calculateScore (extractFeatures X sourceProduct)
              (extractFeatures X c) sourceProduct c)))
           None
           (Some (calculateScore (extractFeatures X sourceProduct) (extractFeatures X c)
              sourceProduct c))"
    by (auto simp: scoreCandidate_def Let_def SmartMatcher_MIN_CONFIDENCE_def split: if_splits)
  with c(1) show ?thesis by blast
qed

text \<open>
  Claim C2. Whatever the candidates, a result of the primary matcher for a source whose
  detected category is \<open>phone\<close> never has the detected category \<open>laptop\<close>, and a result for a
  \<open>laptop\<close> source never has the detected category \<open>phone\<close>. (A result carries the title and
  the category of its candidate, so its detected category is the candidate's.)
\<close>

theorem SmartMatcher_findMatches_no_cross_category:
  assumes "m \<in> set (SmartMatcher_findMatches X sourceProduct candidates)"
  shows "(detectCategory sourceProduct = ''phone'' \<longrightarrow> detectCategory m \<noteq> ''laptop'')
       \<and> (detectCategory sourceProduct = ''laptop'' \<longrightarrow> detectCategory m \<noteq> ''phone'')"
proof -
  from assms obtain c where
    c: "c \<in> set (filterByCategory sourceProduct (detectCategory sourceProduct)
                 (preprocessCandidates candidates))"
    and m: "m = mkMatch c
           (mathRound (total (calculateScore (extractFeatures X sourceProduct)
              (extractFeatures X c) sourceProduct c)))
           (getMatchLevel (total (calculateScore (extractFeatures X sourceProduct)
              (extractFeatures X c) sourceProduct c)))
           None
           (Some (calculateScore (extractFeatures X sourceProduct) (extractFeatures X c)
              sourceProduct c))"
    using SmartMatcher_findMatches_origin by blast
  have "detectCategory m = detectCategory c" by (simp add: m)
  with filterByCategory_sound(2,3)[OF c] show ?thesis by auto
qed

text \<open>
  Claim C3. The list the primary matcher returns has at most 8 elements, is ordered by
  non-increasing confidence, and each element is a candidate together with the breakdown
  \<open>calculateScore\<close> computes for it, whose total is at least 70 and whose rounded total is the
  element's confidence.
\<close>

theorem SmartMatcher_findMatches_ranked:
  "length (SmartMatcher_findMatches X sourceProduct candidates) \<le> 8
   \<and> sorted_wrt (\<lambda>a b. confidence a \<ge> confidence b)
       (SmartMatcher_findMatches X sourceProduct candidates)
   \<and> (\<forall>m \<in> set (SmartMatcher_findMatches X sourceProduct candidates).
        \<exists>c \<in> set candidates.
          Product.truncate m = c
          \<and> scoring m = Some (calculateScore (extractFeatures X sourceProduct)
                               (extractFeatures X c) sourceProduct c)
          \<and> confidence m = mathRound (total (calculateScore (extractFeatures X sourceProduct)
                               (extractFeatures X c) sourceProduct c))
          \<and> total (calculateScore (extractFeatures X sourceProduct)
                               (extractFeatures X c) sourceProduct c) \<ge> 70)"
proof (intro conjI ballI)
  show "length (SmartMatcher_findMatches X sourceProduct candidates) \<le> 8"
    by (simp add: SmartMatcher_findMatches_def Let_def MAX_RESULTS_def)
  show "sorted_wrt (\<lambda>a b. confidence a \<ge> confidence b)
          (SmartMatcher_findMatches X sourceProduct candidates)"
    by (simp add: SmartMatcher_findMatches_def Let_def sorted_wrt_take' sorted_sortByConfidence)
next
  fix m assume "m \<in> set (SmartMatcher_findMatches X sourceProduct candidates)"
  then obtain c where
    c: "c \<in> set (filterByCategory sourceProduct (detectCategory sourceProduct)
                 (preprocessCandidates candidates))"
    and m: "m = mkMatch c
           (mathRound (total (calculateScore (extractFeatures X sourceProduct)
              (extractFeatures X c) sourceProduct c)))
           (getMatchLevel (total (calculateScore (extractFeatures X sourceProduct)
              (extractFeatures X c) sourceProduct c)))
           None
           (Some (calculateScore (extractFeatures X sourceProduct) (extractFeatures X c)
              sourceProduct c))"
    and t: "total (calculateScore (extractFeatures X sourceProduct) (extractFeatures X c)
              sourceProduct c) \<ge> 70"
    using SmartMatcher_findMatches_origin by blast
  from c have "c \<in> set candidates"
    by (auto dest!: filterByCategory_sound(1) simp: preprocessCandidates_def)
  with m t show "\<exists>c \<in> set candidates.
          Product.truncate m = c
          \<and> scoring m = Some (calculateScore (extractFeatures X sourceProduct)
                               (extractFeatures X c) sourceProduct c)
          \<and> confidence m = mathRound (total (calculateScore (extractFeatures X sourceProduct)
                               (extractFeatures X c) sourceProduct c))
          \<and> total (calculateScore (extractFeatures X sourceProduct)
                               (extractFeatures X c) sourceProduct c) \<ge> 70"
    by (intro bexI[of _ c]) simp_all
qed

subsection \<open>A run of the primary matcher\<close>

lemma exSource_tokens:
  "SmartMatcher_tokenize (title exSource)
     = [''apple'', ''iphone'', ''15'', ''pro'', ''max'', ''256gb'', ''blue'', ''titanium'']"
  by (simp add: exSource_def SmartMatcher_tokenize_def SmartMatcher_stopWords_def string_eval)

lemma exPhone_tokens:
  "SmartMatcher_tokenize (title exPhone)
     = [''apple'', ''iphone'', ''15'', ''pro'', ''max'', ''256'', ''gb'', ''blue'', ''titanium'']"
  by (simp add: exPhone_def SmartMatcher_tokenize_def SmartMatcher_stopWords_def string_eval)

lemma normalizeBrand_Apple: "normalizeBrand ''Apple'' = ''Apple''"
  by (simp add: normalizeBrand_def BRAND_ALIASES_def string_eval)

lemma ex_categories:
  "detectCategory exSource = ''phone''"
  "detectCategory exPhone = ''phone''"
  "detectCategory exLaptop = ''laptop''"
  by (simp_all add: detectCategory_def exSource_def exPhone_def exLaptop_def)

lemma exPhone_score:
  "calculateScore (extractFeatures exExtractors exSource) (extractFeatures exExtractors exPhone)
     exSource exPhone = exScoring"
  apply (simp add: calculateScore_def extractFeatures_def Let_def exSource_tokens exPhone_tokens)
  apply (simp add: exSource_def exPhone_def exExtractors_def normalizeBrand_Apple
      generateNGrams_def string_eval)
  apply (simp add: score_eval normalizeBrand_Apple exScoring_def string_eval)
  done

lemma exFiltered:
  "filterByCategory exSource ''phone'' (preprocessCandidates [exPhone, exLaptop]) = [exPhone]"
  by (simp add: filterByCategory_def preprocessCandidates_def ex_categories)
    (simp add: exPhone_def exLaptop_def)

lemma exRun:
  "SmartMatcher_findMatches exExtractors exSource [exPhone, exLaptop]
     = [mkMatch exPhone 79 MEDIUM None (Some exScoring)]"
  by (simp add: SmartMatcher_findMatches_def ex_categories exFiltered Let_def scoreCandidate_def
      exPhone_score sortByConfidence_def MAX_RESULTS_def)
    (simp add: exScoring_def SmartMatcher_MIN_CONFIDENCE_def mathRound_def getMatchLevel_def)

theorem SmartMatcher_findMatches_no_cross_category_witness:
  "mkMatch exPhone 79 MEDIUM None (Some exScoring)
     \<in> set (SmartMatcher_findMatches exExtractors exSource [exPhone, exLaptop])
   \<and> detectCategory exSource = ''phone''
   \<and> detectCategory exLaptop = ''laptop''
   \<and> detectCategory (mkMatch exPhone 79 MEDIUM None (Some exScoring)) \<noteq> ''laptop''"
proof -
  have m: "mkMatch exPhone 79 MEDIUM None (Some exScoring)
     \<in> set (SmartMatcher_findMatches exExtractors exSource [exPhone, exLaptop])"
    by (simp add: exRun)
  from SmartMatcher_findMatches_no_cross_category [OF m] m show ?thesis
    by (simp add: ex_categories)
qed

theorem SmartMatcher_findMatches_ranked_witness:
  "SmartMatcher_findMatches exExtractors exSource [exPhone, exLaptop]
     = [mkMatch exPhone 79 MEDIUM None (Some exScoring)]
   \<and> length (SmartMatcher_findMatches exExtractors exSource [exPhone, exLaptop]) \<le> 8
   \<and> (\<exists>c \<in> set [exPhone, exLaptop].
         scoring (mkMatch exPhone 79 MEDIUM None (Some exScoring))
           = Some (calculateScore (extractFeatures exExtractors exSource)
                     (extractFeatures exExtractors c) exSource c)
         \<and> total (calculateScore (extractFeatures exExtractors exSource)
                     (extractFeatures exExtractors c) exSource c) \<ge> 70)"
  using SmartMatcher_findMatches_ranked [of exExtractors exSource "[exPhone, exLaptop]"]
  unfolding exRun by auto

text \<open>The breakdown of that run, as an instance of the statement on totals.\<close>

theorem calculateScore_total_witness:
  "total (calculateScore (extractFeatures exExtractors exSource)
            (extractFeatures exExtractors exPhone) exSource exPhone) = 787 / 10
   \<and> total (calculateScore (extractFeatures exExtractors exSource)
            (extractFeatures exExtractors exPhone) exSource exPhone)
       = min 100 (25 + 30 + 0 + 87 / 10 + 10 + 5)"
  using calculateScore_total [of "extractFeatures exExtractors exSource"
      "extractFeatures exExtractors exPhone" exSource exPhone]
  by (simp add: exPhone_score exScoring_def)

section \<open>The legacy matcher\<close>

lemma length_filter_filter_le: "length (filter P (filter Q xs)) \<le> length (filter P xs)"
  by (induction xs) auto

lemma sortAndLimit_member:
  "length ms \<le> n \<Longrightarrow> m \<in> set (sortAndLimit ms n) \<longleftrightarrow> m \<in> set ms \<and> confidence m \<ge> 25"
proof -
  assume "length ms \<le> n"
  moreover have "length (filter (\<lambda>m. confidence m \<ge> ProductMatcher_MIN_CONFIDENCE) ms)
                 \<le> length ms"
    by (rule length_filter_le)
  ultimately have
    "length (filter (\<lambda>m. confidence m \<ge> ProductMatcher_MIN_CONFIDENCE) ms) \<le> n"
    by (rule order_trans [rotated])
  then have "take n (sortByConfidence
      (filter (\<lambda>m. confidence m \<ge> ProductMatcher_MIN_CONFIDENCE) ms))
    = sortByConfidence (filter (\<lambda>m. confidence m \<ge> ProductMatcher_MIN_CONFIDENCE) ms)"
    by simp
  then show ?thesis
    by (simp add: sortAndLimit_def ProductMatcher_MIN_CONFIDENCE_def)
qed

lemma sortAndLimit_subset: "set (sortAndLimit ms n) \<subseteq> set ms"
  by (auto simp: sortAndLimit_def dest: in_set_takeD)

lemma sortAndLimit_all:
  assumes "\<forall>m \<in> set ms. confidence m \<ge> 25" and "length ms \<le> n"
  shows "set (sortAndLimit ms n) = set ms"
proof -
  have "filter (\<lambda>m. confidence m \<ge> ProductMatcher_MIN_CONFIDENCE) ms = ms"
    using assms(1) by (simp add: ProductMatcher_MIN_CONFIDENCE_def)
  then show ?thesis using assms(2) by (simp add: sortAndLimit_def)
qed

lemma findExactIdMatches_level:
  "m \<in> set (findExactIdMatches source cs) \<Longrightarrow> confidence m = 100 \<and> matchLevel m = EXACT_ID"
  by (auto simp: findExactIdMatches_def)

lemma level2_not_exact_id:
  "m \<in> set (findBrandModelStorageMatches X source attrs cs) \<Longrightarrow> matchLevel m \<noteq> EXACT_ID"
  by (auto simp: findBrandModelStorageMatches_def brandModelStorageMatch_def Let_def
      split: if_splits)

lemma level3_not_exact_id:
  "m \<in> set (findBrandModelMatches X source attrs cs) \<Longrightarrow> matchLevel m \<noteq> EXACT_ID"
  by (auto simp: findBrandModelMatches_def brandModelMatch_def Let_def split: if_splits)

lemma level4_not_exact_id:
  "m \<in> set (findFuzzyMatches X source attrs cs) \<Longrightarrow> matchLevel m \<noteq> EXACT_ID"
  by (auto simp: findFuzzyMatches_def fuzzyMatch_def Let_def split: if_splits)

text \<open>
  Claim C10. When the source's \<open>productId\<close> is the empty string (which is what the scraper stores
  when the page has no identifier), no result of the legacy matcher has the level \<open>EXACT_ID\<close>,
  whatever the candidates' identifiers are: level 1 runs only under \<open>if (sourceProduct.productId)\<close>,
  and levels 2 to 4 assign \<open>EXACT\<close>, \<open>HIGH\<close>, \<open>MEDIUM\<close> and \<open>LOW\<close>.
\<close>

theorem ProductMatcher_no_exact_id_without_source_id:
  assumes "productId sourceProduct = []"
    and "m \<in> set (ProductMatcher_findMatches X sourceProduct candidates)"
  shows "matchLevel m \<noteq> EXACT_ID"
proof -
  define filtered where "filtered = filterAccessories sourceProduct
    (filter (\<lambda>p. numericPrice p \<ge> 10 \<and> length (title p) \<ge> 5) candidates)"
  define attrs where "attrs = extractAttributes X sourceProduct"
  from assms have
    "m \<in> set (findBrandModelStorageMatches X sourceProduct attrs filtered)
     \<or> m \<in> set (findBrandModelMatches X sourceProduct attrs filtered)
     \<or> m \<in> set (findFuzzyMatches X sourceProduct attrs filtered)"
    unfolding ProductMatcher_findMatches_def Let_def filtered_def [symmetric]
      attrs_def [symmetric]
    using sortAndLimit_subset by (fastforce split: if_splits)
  then show ?thesis
    using level2_not_exact_id level3_not_exact_id level4_not_exact_id by blast
qed

text \<open>
  Claim C4, as amended. Let the source's \<open>productId\<close> be non-empty. A candidate with the same
  \<open>productId\<close> that passes validation (price at least 10, title of at least 5 characters) and
  the accessory filter appears in the output of the legacy matcher with confidence 100 and
  level \<open>EXACT_ID\<close>, provided at most 20 candidates carry that identifier (the output is cut
  to 20); every element of the output then has confidence 100 and level \<open>EXACT_ID\<close>. Other
  fields (brand, category, the rest of the title, the price above 10) play no part.
\<close>

theorem ProductMatcher_exact_id:
  assumes "productId sourceProduct \<noteq> []"
    and "c \<in> set candidates"
    and "productId c = productId sourceProduct"
    and "numericPrice c \<ge> 10" and "length (title c) \<ge> 5"
    and "isAccessory (title sourceProduct) \<or> hasDeviceKeyword (toLowerCase (title c))
         \<or> \<not> isAccessory (title c)"
    and "length (filter (\<lambda>d. productId d = productId sourceProduct) candidates) \<le> 20"
  shows "mkMatch c 100 EXACT_ID None None
           \<in> set (ProductMatcher_findMatches X sourceProduct candidates)
       \<and> (\<forall>m \<in> set (ProductMatcher_findMatches X sourceProduct candidates).
             confidence m = 100 \<and> matchLevel m = EXACT_ID)"
proof -
  define filtered where "filtered = filterAccessories sourceProduct
    (filter (\<lambda>p. numericPrice p \<ge> 10 \<and> length (title p) \<ge> 5) candidates)"
  define exact where "exact = findExactIdMatches sourceProduct filtered"
  have cf: "c \<in> set filtered"
    using assms(2,4,5,6) by (auto simp: filtered_def filterAccessories_def Let_def)
  then have ne: "filtered \<noteq> []" by auto
  have cin: "mkMatch c 100 EXACT_ID None None \<in> set exact"
    using cf assms(3) by (auto simp: exact_def findExactIdMatches_def)
  then have ene: "exact \<noteq> []" by auto
  have "length (filter (\<lambda>d. productId d = productId sourceProduct) filtered)
        \<le> length (filter (\<lambda>d. productId d = productId sourceProduct)
             (filter (\<lambda>p. numericPrice p \<ge> 10 \<and> length (title p) \<ge> 5) candidates))"
    unfolding filtered_def filterAccessories_def Let_def by (rule length_filter_filter_le)
  also have "\<dots> \<le> length (filter (\<lambda>d. productId d = productId sourceProduct) candidates)"
    by (rule length_filter_filter_le)
  finally have "length (filter (\<lambda>d. productId d = productId sourceProduct) filtered)
        \<le> length (filter (\<lambda>d. productId d = productId sourceProduct) candidates)" .
  then have len: "length exact \<le> 20"
    using assms(7) by (simp add: exact_def findExactIdMatches_def)
  have out: "ProductMatcher_findMatches X sourceProduct candidates = sortAndLimit exact 20"
    using assms(1) ne ene
    unfolding ProductMatcher_findMatches_def Let_def filtered_def [symmetric]
      exact_def [symmetric]
    by simp
  have "\<forall>m \<in> set exact. confidence m \<ge> 25"
    using findExactIdMatches_level unfolding exact_def by fastforce
  then have "set (sortAndLimit exact 20) = set exact"
    using len by (rule sortAndLimit_all)
  with cin out findExactIdMatches_level show ?thesis
    unfolding exact_def by auto
qed

lemma exSource_lower:
  "toLowerCase ''Apple iPhone 15 Pro Max 256GB Blue Titanium''
     = ''apple iphone 15 pro max 256gb blue titanium''"
  by (simp add: string_eval)

lemma exPhone_lower:
  "toLowerCase ''Apple iPhone 15 Pro Max (256 GB) - Blue Titanium''
     = ''apple iphone 15 pro max (256 gb) - blue titanium''"
  by (simp add: string_eval)

lemma exCover_lower:
  "toLowerCase ''Silicone Back Cover Blue'' = ''silicone back cover blue''"
  by (simp add: string_eval)

text \<open>The claim as stated fails for a candidate with the source's identifier that the
  accessory filter removes before level 1 runs.\<close>

theorem ProductMatcher_exact_id_filtered:
  "productId exCover = productId exSource \<and> productId exSource \<noteq> []
   \<and> ProductMatcher_findMatches exExtractors exSource [exCover] = []"
proof -
  have "\<not> isAccessory (title exSource)"
    by (simp add: isAccessory_def exSource_def exSource_lower ACCESSORY_KEYWORDS_def)
  moreover have "isAccessory (title exCover)"
    by (simp add: isAccessory_def exCover_def exCover_lower ACCESSORY_KEYWORDS_def)
  moreover have "\<not> hasDeviceKeyword (toLowerCase (title exCover))"
    by (simp add: hasDeviceKeyword_def exCover_def exCover_lower)
  ultimately have "filterAccessories exSource [exCover] = []"
    by (simp add: filterAccessories_def)
  moreover have "numericPrice exCover \<ge> 10 \<and> length (title exCover) \<ge> 5"
    by (simp add: exCover_def)
  ultimately show ?thesis
    by (simp add: ProductMatcher_findMatches_def) (simp add: exCover_def exSource_def)
qed

theorem ProductMatcher_exact_id_witness:
  "productId exSource \<noteq> [] \<and> exTwin \<in> set [exTwin, exLaptop]
   \<and> productId exTwin = productId exSource
   \<and> mkMatch exTwin 100 EXACT_ID None None
       \<in> set (ProductMatcher_findMatches exExtractors exSource [exTwin, exLaptop])"
proof -
  have 1: "productId exSource \<noteq> []" by (simp add: exSource_def)
  have 2: "exTwin \<in> set [exTwin, exLaptop]" by simp
  have 3: "productId exTwin = productId exSource" by (simp add: exTwin_def exSource_def)
  have 4: "numericPrice exTwin \<ge> 10" by (simp add: exTwin_def exPhone_def)
  have 5: "length (title exTwin) \<ge> 5" by (simp add: exTwin_def exPhone_def)
  have "hasDeviceKeyword (toLowerCase (title exTwin))"
    by (simp add: hasDeviceKeyword_def exTwin_def exPhone_def exPhone_lower)
  then have 6: "isAccessory (title exSource) \<or> hasDeviceKeyword (toLowerCase (title exTwin))
         \<or> \<not> isAccessory (title exTwin)" by simp
  have 7: "length (filter (\<lambda>d. productId d = productId exSource) [exTwin, exLaptop]) \<le> 20"
    by simp
  from ProductMatcher_exact_id [OF 1 2 3 4 5 6 7, of exExtractors] 1 2 3
  show ?thesis by simp
qed

lemma exNoId_run:
  "mkMatch exNoIdPhone 85 HIGH None None
     \<in> set (ProductMatcher_findMatches exExtractors exNoIdSource [exNoIdPhone])"
proof -
  have acc: "hasDeviceKeyword (toLowerCase (title exNoIdPhone))"
    by (simp add: hasDeviceKeyword_def exNoIdPhone_def exPhone_def exPhone_lower)
  have f: "filterAccessories exNoIdSource [exNoIdPhone] = [exNoIdPhone]"
    using acc by (simp add: filterAccessories_def Let_def)
  have v: "numericPrice exNoIdPhone \<ge> 10 \<and> length (title exNoIdPhone) \<ge> 5"
    by (simp add: exNoIdPhone_def exPhone_def)
  have ms: "ProductAttributes.model (extractAttributes exExtractors exNoIdSource)
              = ''iPhone 15 Pro Max''"
    by (simp add: extractAttributes_def exExtractors_def exNoIdSource_def exSource_def
        exSource_lower)
  have mc: "ProductAttributes.model (extractAttributes exExtractors exNoIdPhone)
              = ''iPhone 15 Pro Max''"
    by (simp add: extractAttributes_def exExtractors_def exNoIdPhone_def exPhone_def
        exPhone_lower)
  have st: "ProductAttributes.storage (extractAttributes exExtractors exNoIdPhone) = []"
    by (simp add: extractAttributes_def exExtractors_def)
  have cm: "compareModels ''iPhone 15 Pro Max'' ''iPhone 15 Pro Max''"
    by (simp add: compareModels_def)
  have l2: "findBrandModelStorageMatches exExtractors exNoIdSource
              (extractAttributes exExtractors exNoIdSource) [exNoIdPhone]
            = [mkMatch exNoIdPhone 85 HIGH None None]"
    by (simp add: findBrandModelStorageMatches_def brandModelStorageMatch_def Let_def ms mc st cm)
  have pid: "productId exNoIdSource = []" by (simp add: exNoIdSource_def)
  have l3: "length (findBrandModelMatches exExtractors exNoIdSource
              (extractAttributes exExtractors exNoIdSource) [exNoIdPhone]) \<le> 1"
    by (simp add: findBrandModelMatches_def brandModelMatch_def Let_def)
  have l4: "length (findFuzzyMatches exExtractors exNoIdSource
              (extractAttributes exExtractors exNoIdSource) [exNoIdPhone]) \<le> 1"
    by (simp add: findFuzzyMatches_def fuzzyMatch_def Let_def)
  show ?thesis
    unfolding ProductMatcher_findMatches_def Let_def
    using v l3 l4
    by (simp add: f pid l2 sortAndLimit_member)
qed

theorem ProductMatcher_no_exact_id_without_source_id_witness:
  "productId exNoIdSource = [] \<and> productId exNoIdPhone = productId exNoIdSource
   \<and> mkMatch exNoIdPhone 85 HIGH None None
       \<in> set (ProductMatcher_findMatches exExtractors exNoIdSource [exNoIdPhone])
   \<and> matchLevel (mkMatch exNoIdPhone 85 HIGH None None) \<noteq> EXACT_ID"
proof -
  have pid: "productId exNoIdSource = []" by (simp add: exNoIdSource_def)
  from ProductMatcher_no_exact_id_without_source_id [OF pid exNoId_run] pid exNoId_run
  show ?thesis by (simp add: exNoIdPhone_def)
qed

section \<open>Deduplication\<close>

subsection \<open>Groups\<close>

lemma firstOccurrences_snoc:
  "firstOccurrences (ks @ [k])
     = (if k \<in> set ks then firstOccurrences ks else firstOccurrences ks @ [k])"
  by (simp add: firstOccurrences_def)

lemma set_firstOccurrences [simp]: "set (firstOccurrences ks) = set ks"
  by (simp add: firstOccurrences_def)

lemma distinct_firstOccurrences [simp]: "distinct (firstOccurrences ks)"
  by (simp add: firstOccurrences_def)

lemma firstOccurrences_distinct: "distinct ks \<Longrightarrow> firstOccurrences ks = ks"
  by (simp add: firstOccurrences_def distinct_remdups_id)

lemma addToGroup_map:
  "distinct K \<Longrightarrow>
   addToGroup k v (map (\<lambda>k'. (k', F k')) K)
     = (if k \<in> set K then map (\<lambda>k'. (k', if k' = k then F k' @ [v] else F k')) K
        else map (\<lambda>k'. (k', F k')) K @ [(k, [v])])"
  by (induction K) auto

lemma groupByKey_eq:
  "groupByKey f xs
     = map (\<lambda>k. (k, filter (\<lambda>x. f x = k) xs)) (firstOccurrences (map f xs))"
proof (induction xs rule: rev_induct)
  case Nil
  then show ?case by (simp add: groupByKey_def firstOccurrences_def)
next
  case (snoc x xs)
  let ?K = "firstOccurrences (map f xs)"
  have "groupByKey f (xs @ [x]) = addToGroup (f x) x (groupByKey f xs)"
    by (simp add: groupByKey_def)
  also have "\<dots> = addToGroup (f x) x (map (\<lambda>k. (k, filter (\<lambda>x. f x = k) xs)) ?K)"
    by (simp only: snoc.IH)
  also have "\<dots> = map (\<lambda>k. (k, filter (\<lambda>y. f y = k) (xs @ [x])))
                     (firstOccurrences (map f (xs @ [x])))"
  proof (cases "f x \<in> set ?K")
    case True
    then show ?thesis
      by (subst addToGroup_map) (auto simp: firstOccurrences_snoc)
  next
    case False
    then have "filter (\<lambda>y. f y = f x) xs = []"
      by (simp add: filter_empty_conv) (metis imageI)
    with False show ?thesis
      by (subst addToGroup_map) (auto simp: firstOccurrences_snoc)
  qed
  finally show ?case .
qed

lemma filter_key_nonempty: "k \<in> set (map f xs) \<Longrightarrow> filter (\<lambda>x. f x = k) xs \<noteq> []"
  by (auto simp: filter_empty_conv)

lemma filter_key_single:
  "distinct (map f ys) \<Longrightarrow> y \<in> set ys \<Longrightarrow> filter (\<lambda>x. f x = f y) ys = [y]"
proof (induction ys)
  case Nil
  then show ?case by simp
next
  case (Cons a ys)
  show ?case
  proof (cases "a = y")
    case True
    with Cons.prems(1) have "filter (\<lambda>x. f x = f y) ys = []"
      by (simp add: filter_empty_conv) (metis imageI)
    with True show ?thesis by simp
  next
    case False
    with Cons.prems have "y \<in> set ys" and "f a \<noteq> f y" by auto
    with Cons show ?thesis by simp
  qed
qed

text \<open>One representative of each group, in the order of the keys.\<close>

lemma pick_groups_keys:
  assumes "\<And>vs. vs \<noteq> [] \<Longrightarrow> \<exists>c \<in> set vs. pick vs = [c]"
    and "set K \<subseteq> set (map f xs)"
  shows "map f (concat (map (\<lambda>k. pick (filter (\<lambda>x. f x = k) xs)) K)) = K"
  using assms(2)
proof (induction K)
  case Nil
  then show ?case by simp
next
  case (Cons k K)
  then have "filter (\<lambda>x. f x = k) xs \<noteq> []"
    by (intro filter_key_nonempty) simp
  from assms(1)[OF this] obtain c where
    "c \<in> set (filter (\<lambda>x. f x = k) xs)" "pick (filter (\<lambda>x. f x = k) xs) = [c]"
    by blast
  with Cons show ?case by simp
qed

lemma pick_groups_distinct_id:
  assumes "\<And>x. pick [x] = [x]" and "distinct (map f ys)"
  shows "concat (map (\<lambda>k. pick (filter (\<lambda>x. f x = k) ys)) (firstOccurrences (map f ys))) = ys"
proof -
  have "concat (map (\<lambda>k. pick (filter (\<lambda>x. f x = k) ys)) (firstOccurrences (map f ys)))
        = concat (map (\<lambda>y. pick (filter (\<lambda>x. f x = f y) ys)) ys)"
    by (simp add: firstOccurrences_distinct assms(2) comp_def)
  also have "\<dots> = concat (map (\<lambda>y. [y]) ys)"
    by (intro arg_cong[where f=concat] map_cong refl)
      (simp add: filter_key_single[OF assms(2)] assms(1))
  also have "\<dots> = ys" by (induction ys) auto
  finally show ?thesis .
qed

lemma pickPerGroup_eq:
  "pickPerGroup f pick xs
     = concat (map (\<lambda>k. pick (filter (\<lambda>x. f x = k) xs)) (firstOccurrences (map f xs)))"
  by (simp add: pickPerGroup_def groupByKey_eq comp_def)

lemma pickPerGroup_keys:
  assumes "\<And>vs. vs \<noteq> [] \<Longrightarrow> \<exists>c \<in> set vs. pick vs = [c]"
  shows "map f (pickPerGroup f pick xs) = firstOccurrences (map f xs)"
proof -
  have "set (firstOccurrences (map f xs)) \<subseteq> set (map f xs)"
    by (simp only: set_firstOccurrences subset_refl)
  with assms show ?thesis
    unfolding pickPerGroup_eq by (rule pick_groups_keys)
qed

lemma pickPerGroup_distinct_id:
  assumes "\<And>x. pick [x] = [x]" and "distinct (map f ys)"
  shows "pickPerGroup f pick ys = ys"
  unfolding pickPerGroup_eq by (rule pick_groups_distinct_id[OF assms])

lemma pickPerGroup_idem:
  assumes 1: "\<And>vs. vs \<noteq> [] \<Longrightarrow> \<exists>c \<in> set vs. pick vs = [c]"
    and 2: "\<And>x. pick [x] = [x]"
  shows "pickPerGroup f pick (pickPerGroup f pick xs) = pickPerGroup f pick xs"
proof -
  have "distinct (map f (pickPerGroup f pick xs))"
    by (simp add: pickPerGroup_keys[OF 1])
  then show ?thesis by (rule pickPerGroup_distinct_id[OF 2])
qed

lemma pickPerGroup_member:
  assumes 1: "\<And>vs. vs \<noteq> [] \<Longrightarrow> \<exists>c \<in> set vs. pick vs = [c]"
    and "m \<in> set (pickPerGroup f pick xs)"
  shows "pick (filter (\<lambda>x. f x = f m) xs) = [m] \<and> m \<in> set xs"
proof -
  from assms(2) obtain k where k: "k \<in> set (map f xs)"
    and m: "m \<in> set (pick (filter (\<lambda>x. f x = k) xs))"
    unfolding pickPerGroup_eq by auto
  from k have "filter (\<lambda>x. f x = k) xs \<noteq> []" by (rule filter_key_nonempty)
  from 1[OF this] obtain c where c: "c \<in> set (filter (\<lambda>x. f x = k) xs)"
    "pick (filter (\<lambda>x. f x = k) xs) = [c]" by blast
  with m have "m = c" by simp
  with c show ?thesis by auto
qed

subsection \<open>The cheapest member of a group\<close>

lemma foldl_cheapest:
  fixes p :: "'a \<Rightarrow> real"
  defines "r \<equiv> foldl (\<lambda>mn curr. if p curr < p mn then curr else mn)"
  shows "r a vs \<in> set (a # vs) \<and> p (r a vs) \<le> p a \<and> (\<forall>v \<in> set vs. p (r a vs) \<le> p v)"
  unfolding r_def
proof (induction vs arbitrary: a)
  case Nil
  then show ?case by simp
next
  case (Cons v vs)
  show ?case
    using Cons.IH[of v] Cons.IH[of a] by (auto simp: not_less)
qed

lemma keepCheapest_pick:
  assumes "vs \<noteq> []"
  shows "\<exists>c \<in> set vs. keepCheapest vs = [c] \<and> (\<forall>v \<in> set vs. numericPrice c \<le> numericPrice v)"
proof (cases vs)
  case Nil
  with assms show ?thesis by simp
next
  case (Cons a rest)
  show ?thesis
  proof (cases rest)
    case Nil
    with Cons show ?thesis by (simp add: keepCheapest_def)
  next
    case (Cons b rest')
    with \<open>vs = a # rest\<close> foldl_cheapest[of numericPrice a rest]
    show ?thesis by (auto simp: keepCheapest_def)
  qed
qed

lemma keepCheapest_single: "keepCheapest [x] = [x]"
  by (simp add: keepCheapest_def)

lemma deduplicateColorVariants_eq:
  "deduplicateColorVariants ms = pickPerGroup variantKey keepCheapest ms"
  by (simp add: deduplicateColorVariants_def pickPerGroup_def)

text \<open>
  The deduplicator of the match results, \<open>deduplicateColorVariants\<close>, groups its input by the
  key \<open>site|brand|base title\<close> (the title in lower case without the colour and variant
  keywords) and returns one member of each group: every element of the output is an element
  of the input whose \<open>numericPrice\<close> is the lowest among the inputs with its key, no two
  elements of the output share a key, and every key of the input has its element in the
  output.
\<close>

theorem deduplicateColorVariants_cheapest:
  "(\<forall>m \<in> set (deduplicateColorVariants matches).
      m \<in> set matches
      \<and> (\<forall>m' \<in> set matches. variantKey m' = variantKey m
            \<longrightarrow> numericPrice m \<le> numericPrice m'))
   \<and> distinct (map variantKey (deduplicateColorVariants matches))
   \<and> set (map variantKey (deduplicateColorVariants matches)) = set (map variantKey matches)"
proof -
  have pick: "\<And>vs. vs \<noteq> [] \<Longrightarrow> \<exists>c \<in> set vs. keepCheapest vs = [c]"
    using keepCheapest_pick by blast
  have keys: "map variantKey (deduplicateColorVariants matches)
              = firstOccurrences (map variantKey matches)"
    unfolding deduplicateColorVariants_eq by (rule pickPerGroup_keys[OF pick])
  have d: "distinct (map variantKey (deduplicateColorVariants matches))"
    by (simp only: keys distinct_firstOccurrences)
  have s: "set (map variantKey (deduplicateColorVariants matches))
           = set (map variantKey matches)"
    by (simp only: keys set_firstOccurrences)
  have c: "m \<in> set matches
           \<and> (\<forall>m' \<in> set matches. variantKey m' = variantKey m
                 \<longrightarrow> numericPrice m \<le> numericPrice m')"
    if m: "m \<in> set (deduplicateColorVariants matches)" for m
  proof
    from m have km: "keepCheapest (filter (\<lambda>x. variantKey x = variantKey m) matches) = [m]"
      and mm: "m \<in> set matches"
      unfolding deduplicateColorVariants_eq using pickPerGroup_member[OF pick] by blast+
    show "m \<in> set matches" by (rule mm)
    show "\<forall>m' \<in> set matches. variantKey m' = variantKey m
            \<longrightarrow> numericPrice m \<le> numericPrice m'"
    proof (intro ballI impI)
      fix m' assume "m' \<in> set matches" "variantKey m' = variantKey m"
      then have in_grp: "m' \<in> set (filter (\<lambda>x. variantKey x = variantKey m) matches)"
        by simp
      then have "filter (\<lambda>x. variantKey x = variantKey m) matches \<noteq> []"
        by (metis empty_iff list.set(1))
      from keepCheapest_pick[OF this] km in_grp
      show "numericPrice m \<le> numericPrice m'" by auto
    qed
  qed
  from c d s show ?thesis by blast
qed

lemma foldl_choose_member:
  "foldl (\<lambda>mn p. if better p mn then p else mn) a rest \<in> set (a # rest)"
proof (induction rest arbitrary: a)
  case Nil
  then show ?case by simp
next
  case (Cons b rest)
  show ?case
    using Cons.IH[of b] Cons.IH[of a] by (cases "better b a") auto
qed

lemma keepCheapestProduct_pick:
  assumes "vs \<noteq> []"
  shows "\<exists>c \<in> set vs. keepCheapestProduct vs = [c]"
proof (cases vs)
  case Nil
  with assms show ?thesis by simp
next
  case (Cons a rest)
  have "foldl (\<lambda>mn p. if stringLess (price p) (price mn) then p else mn) a rest
          \<in> set (a # rest)"
    by (rule foldl_choose_member)
  with Cons show ?thesis
    by (cases rest) (simp_all add: keepCheapestProduct_def)
qed

lemma keepCheapestProduct_single: "keepCheapestProduct [x] = [x]"
  by (simp add: keepCheapestProduct_def)

lemma deduplicateSiteProducts_eq:
  "deduplicateSiteProducts ps = pickPerGroup normalizeProductKey keepCheapestProduct ps"
  by (simp add: deduplicateSiteProducts_def pickPerGroup_def)

lemma deduplicateSiteProducts_idem:
  "deduplicateSiteProducts (deduplicateSiteProducts ps) = deduplicateSiteProducts ps"
  unfolding deduplicateSiteProducts_eq
  by (rule pickPerGroup_idem[OF keepCheapestProduct_pick keepCheapestProduct_single])

lemma deduplicateSiteProducts_subset: "set (deduplicateSiteProducts ps) \<subseteq> set ps"
  unfolding deduplicateSiteProducts_eq
  using pickPerGroup_member[OF keepCheapestProduct_pick] by blast

lemma deduplicateSiteProducts_nonempty: "ps \<noteq> [] \<Longrightarrow> deduplicateSiteProducts ps \<noteq> []"
proof -
  assume "ps \<noteq> []"
  then have "firstOccurrences (map normalizeProductKey ps) \<noteq> []"
    by (metis list.map_disc_iff set_empty set_firstOccurrences)
  moreover have "map normalizeProductKey (deduplicateSiteProducts ps)
        = firstOccurrences (map normalizeProductKey ps)"
    unfolding deduplicateSiteProducts_eq
    by (rule pickPerGroup_keys[OF keepCheapestProduct_pick])
  ultimately show ?thesis by auto
qed

subsection \<open>Blocks of one site each\<close>

lemma map_const_replicate: "\<forall>x \<in> set xs. g x = s \<Longrightarrow> map g xs = replicate (length xs) s"
  by (induction xs) auto

lemma firstOccurrences_append_replicate:
  "s \<notin> set ks \<Longrightarrow> firstOccurrences (ks @ replicate (Suc n) s) = firstOccurrences ks @ [s]"
proof (induction n)
  case 0
  then show ?case by (simp add: firstOccurrences_snoc)
next
  case (Suc n)
  have "ks @ replicate (Suc (Suc n)) s = (ks @ replicate (Suc n) s) @ [s]"
    by (simp add: replicate_append_same)
  then have "firstOccurrences (ks @ replicate (Suc (Suc n)) s)
             = firstOccurrences (ks @ replicate (Suc n) s)"
    by (simp only: firstOccurrences_snoc) simp
  with Suc show ?case by simp
qed

lemma blocks_firstOccurrences:
  assumes "distinct S" and "\<forall>s \<in> set S. B s \<noteq> [] \<and> (\<forall>x \<in> set (B s). g x = s)"
  shows "firstOccurrences (map g (concat (map B S))) = S"
  using assms
proof (induction S rule: rev_induct)
  case Nil
  then show ?case by (simp add: firstOccurrences_def)
next
  case (snoc s S)
  then have IH: "firstOccurrences (map g (concat (map B S))) = S" by simp
  from snoc.prems have ne: "B s \<noteq> []" and gs: "\<forall>x \<in> set (B s). g x = s" by simp_all
  from ne obtain n where n: "length (B s) = Suc n" by (cases "B s") auto
  have rep: "map g (B s) = replicate (Suc n) s"
    using map_const_replicate[OF gs] n by simp
  have "s \<notin> set S" using snoc.prems(1) by simp
  moreover have "set (map g (concat (map B S))) \<subseteq> set S"
    using snoc.prems(2) by auto
  ultimately have notin: "s \<notin> set (map g (concat (map B S)))" by blast
  have "map g (concat (map B (S @ [s]))) = map g (concat (map B S)) @ replicate (Suc n) s"
    by (simp add: rep)
  then show ?case
    using firstOccurrences_append_replicate[OF notin, of n] IH by simp
qed

lemma blocks_filter:
  assumes "distinct S" and "\<forall>s \<in> set S. \<forall>x \<in> set (B s). g x = s" and "s \<in> set S"
  shows "filter (\<lambda>x. g x = s) (concat (map B S)) = B s"
  using assms
proof (induction S)
  case Nil
  then show ?case by simp
next
  case (Cons t S)
  show ?case
  proof (cases "t = s")
    case True
    with Cons.prems have "filter (\<lambda>x. g x = s) (B t) = B t"
      by (simp add: filter_id_conv)
    moreover have "filter (\<lambda>x. g x = s) (concat (map B S)) = []"
      using Cons.prems True by (auto simp: filter_empty_conv)
    ultimately show ?thesis using True by simp
  next
    case False
    with Cons.prems have "filter (\<lambda>x. g x = s) (B t) = []"
      by (auto simp: filter_empty_conv)
    moreover from False Cons.prems have "s \<in> set S" by simp
    ultimately show ?thesis using Cons by simp
  qed
qed

lemma deduplicateProducts_eq:
  "deduplicateProducts ps
     = concat (map (\<lambda>s. deduplicateSiteProducts (filter (\<lambda>x. site x = s) ps))
                 (firstOccurrences (map site ps)))"
proof -
  have "deduplicateProducts ps = pickPerGroup site deduplicateSiteProducts ps"
    by (simp add: deduplicateProducts_def pickPerGroup_def)
  then show ?thesis by (simp only: pickPerGroup_eq)
qed

lemma deduplicateProducts_idem:
  "deduplicateProducts (deduplicateProducts ps) = deduplicateProducts ps"
proof -
  define S where "S = firstOccurrences (map site ps)"
  define B where "B = (\<lambda>s. deduplicateSiteProducts (filter (\<lambda>x. site x = s) ps))"
  have out: "deduplicateProducts ps = concat (map B S)"
    by (simp add: deduplicateProducts_eq S_def B_def)
  have dS: "distinct S" by (simp add: S_def)
  have blk: "\<forall>s \<in> set S. B s \<noteq> [] \<and> (\<forall>x \<in> set (B s). site x = s)"
  proof
    fix s assume "s \<in> set S"
    then have "s \<in> set (map site ps)" by (simp add: S_def)
    then have "filter (\<lambda>x. site x = s) ps \<noteq> []" by (rule filter_key_nonempty)
    then have "B s \<noteq> []" unfolding B_def by (rule deduplicateSiteProducts_nonempty)
    moreover have "\<forall>x \<in> set (B s). site x = s"
      using deduplicateSiteProducts_subset[of "filter (\<lambda>x. site x = s) ps"]
      unfolding B_def by auto
    ultimately show "B s \<noteq> [] \<and> (\<forall>x \<in> set (B s). site x = s)" by simp
  qed
  have keys: "firstOccurrences (map site (concat (map B S))) = S"
    using dS blk by (rule blocks_firstOccurrences)
  have "deduplicateProducts (concat (map B S))
        = concat (map (\<lambda>s. deduplicateSiteProducts
                              (filter (\<lambda>x. site x = s) (concat (map B S)))) S)"
    by (simp only: deduplicateProducts_eq keys)
  also have "\<dots> = concat (map (\<lambda>s. deduplicateSiteProducts (B s)) S)"
  proof (intro arg_cong[where f=concat] map_cong refl)
    fix s assume "s \<in> set S"
    with dS blk have "filter (\<lambda>x. site x = s) (concat (map B S)) = B s"
      by (intro blocks_filter) auto
    then show "deduplicateSiteProducts (filter (\<lambda>x. site x = s) (concat (map B S)))
               = deduplicateSiteProducts (B s)" by simp
  qed
  also have "\<dots> = concat (map B S)"
    by (simp add: B_def deduplicateSiteProducts_idem)
  finally show ?thesis by (simp only: out)
qed

text \<open>
  Claim C6. Deduplicating twice gives the same list, element by element, as deduplicating
  once: for \<open>deduplicateColorVariants\<close> on the match results, and for \<open>deduplicateProducts\<close> on
  the candidates as well.
\<close>

theorem deduplicate_idempotent:
  "deduplicateColorVariants (deduplicateColorVariants matches) = deduplicateColorVariants matches
   \<and> deduplicateProducts (deduplicateProducts products) = deduplicateProducts products"
proof
  have pick: "\<And>vs. vs \<noteq> [] \<Longrightarrow> \<exists>c \<in> set vs. keepCheapest vs = [c]"
    using keepCheapest_pick by blast
  show "deduplicateColorVariants (deduplicateColorVariants matches)
        = deduplicateColorVariants matches"
    unfolding deduplicateColorVariants_eq
    by (rule pickPerGroup_idem[OF pick keepCheapest_single])
  show "deduplicateProducts (deduplicateProducts products) = deduplicateProducts products"
    by (rule deduplicateProducts_idem)
qed

subsection \<open>A run of the deduplicator\<close>

lemmas regex_eval = wordMatch_def wordCharAhead_def anyWordMatch_def measureMatch_def
  measureUnits_def

lemma exBlack_key: "variantKey exBlack = ''amazon|Apple|iphone 15''"
  by (simp add: variantKey_def exBlack_def baseTitle_def colorKeywords_def string_eval regex_eval)

lemma exWhite_key: "variantKey exWhite = ''amazon|Apple|iphone 15''"
  by (simp add: variantKey_def exWhite_def baseTitle_def colorKeywords_def string_eval regex_eval)

lemma exOther_key: "variantKey exOther = ''flipkart|Dell|dell inspiron 15 laptop''"
  by (simp add: variantKey_def exOther_def exLaptop_def baseTitle_def colorKeywords_def
      string_eval regex_eval)

lemma exDedup:
  "deduplicateColorVariants [exBlack, exWhite, exOther] = [exWhite, exOther]"
  by (simp add: deduplicateColorVariants_def groupByKey_def exBlack_key exWhite_key exOther_key
      keepCheapest_def)
    (simp add: exBlack_def exWhite_def)

lemma exShirt_keys:
  "normalizeProductKey exShirt999 = ''nike:polo shirt''"
  "normalizeProductKey exShirt1299 = ''nike:polo shirt''"
  by (simp_all add: normalizeProductKey_def exShirt999_def exShirt1299_def normalizeKeyColors_def
      string_eval regex_eval)

text \<open>
  Claim C5 (the code departs from it). The claim asks that of each group the member with the
  lowest \<open>numericPrice\<close> is kept. \<open>deduplicateColorVariants\<close> does so, as shown above. Its
  sibling \<open>deduplicateSiteProducts\<close>, which deduplicates the candidates of each site and is
  documented as keeping the cheapest, compares the display strings \<open>price\<close> instead: of two
  listings of one product at 999 and at 1,299 it keeps the one at 1,299, and so does
  \<open>deduplicateProducts\<close>.
\<close>

theorem deduplicateSiteProducts_display_price:
  "normalizeProductKey exShirt999 = normalizeProductKey exShirt1299
   \<and> site exShirt999 = site exShirt1299
   \<and> numericPrice exShirt999 < numericPrice exShirt1299
   \<and> deduplicateSiteProducts [exShirt999, exShirt1299] = [exShirt1299]
   \<and> deduplicateProducts [exShirt999, exShirt1299] = [exShirt1299]"
proof -
  have s: "site exShirt999 = ''myntra''" "site exShirt1299 = ''myntra''"
    by (simp_all add: exShirt999_def exShirt1299_def)
  have ds: "deduplicateSiteProducts [exShirt999, exShirt1299] = [exShirt1299]"
    by (simp add: deduplicateSiteProducts_def groupByKey_def exShirt_keys keepCheapestProduct_def)
      (simp add: exShirt999_def exShirt1299_def)
  have "deduplicateProducts [exShirt999, exShirt1299] = [exShirt1299]"
    by (simp add: deduplicateProducts_def groupByKey_def s ds)
  with ds s show ?thesis
    by (simp add: exShirt_keys) (simp add: exShirt999_def exShirt1299_def)
qed

theorem deduplicateColorVariants_cheapest_witness:
  "exWhite \<in> set (deduplicateColorVariants [exBlack, exWhite, exOther])
   \<and> exBlack \<in> set [exBlack, exWhite, exOther]
   \<and> variantKey exBlack = variantKey exWhite
   \<and> numericPrice exWhite \<le> numericPrice exBlack"
proof -
  have "exWhite \<in> set (deduplicateColorVariants [exBlack, exWhite, exOther])"
    by (simp add: exDedup)
  moreover have "variantKey exBlack = variantKey exWhite"
    by (simp add: exBlack_key exWhite_key)
  ultimately show ?thesis
    using deduplicateColorVariants_cheapest [of "[exBlack, exWhite, exOther]"] by simp
qed

theorem deduplicate_idempotent_witness:
  "deduplicateColorVariants [exBlack, exWhite, exOther] = [exWhite, exOther]
   \<and> deduplicateColorVariants (deduplicateColorVariants [exBlack, exWhite, exOther])
       = [exWhite, exOther]
   \<and> deduplicateProducts (deduplicateProducts [exShirt999, exShirt1299])
       = deduplicateProducts [exShirt999, exShirt1299]"
  using deduplicate_idempotent [of "[exBlack, exWhite, exOther]" "[exShirt999, exShirt1299]"]
  by (simp add: exDedup)

section \<open>Brand canonicalisation\<close>













end
